theory Spec2Isabelle
  imports Main
begin

section \<open>The ng_package packager (packages/bazel/src/ng_package/packager.ts)\<close>

text \<open>
  A shallow embedding of the packager: the string primitives of JavaScript it uses, the
  POSIX variant of Node's \<open>path\<close> module, a file store for \<open>fs\<close> and \<open>shelljs\<close>, and
  then the functions of \<open>packager.ts\<close> themselves under the names they have there.
  Strings are byte lists; exceptions are values of the type \<open>error\<close>.
\<close>

subsection \<open>JavaScript string primitives\<close>

definition startsWith :: "string \<Rightarrow> string \<Rightarrow> bool" where
  \<comment> \<open>\<open>s.startsWith(p)\<close>\<close>
  "startsWith s p = (take (length p) s = p)"

definition endsWith :: "string \<Rightarrow> string \<Rightarrow> bool" where
  \<comment> \<open>\<open>s.endsWith(p)\<close>\<close>
  "endsWith s p = (length p \<le> length s \<and> drop (length s - length p) s = p)"

fun str_includes :: "string \<Rightarrow> string \<Rightarrow> bool" where
  \<comment> \<open>\<open>s.includes(sub)\<close>, also \<open>s.indexOf(sub) >= 0\<close>: \<open>sub\<close> occurs somewhere in \<open>s\<close>\<close>
  "str_includes [] sub = (sub = [])"
| "str_includes (c # cs) sub = (startsWith (c # cs) sub \<or> str_includes cs sub)"

fun split_from :: "string \<Rightarrow> string \<Rightarrow> string \<Rightarrow> string list" where
  \<comment> \<open>the scan of \<open>split\<close>: \<open>acc\<close> holds the current piece, reversed\<close>
  "split_from sep acc [] = [rev acc]"
| "split_from sep acc (c # cs) =
     (if sep \<noteq> [] \<and> startsWith (c # cs) sep
      then rev acc # split_from sep [] (drop (length sep - 1) cs)
      else split_from sep (c # acc) cs)"

definition js_split :: "string \<Rightarrow> string \<Rightarrow> string list" where
  \<comment> \<open>\<open>s.split(sep)\<close>; with the empty separator JavaScript splits into characters\<close>
  "js_split s sep = (if sep = [] then map (\<lambda>c. [c]) s else split_from sep [] s)"

fun js_join :: "string list \<Rightarrow> string \<Rightarrow> string" where
  \<comment> \<open>\<open>parts.join(sep)\<close>\<close>
  "js_join [] sep = []"
| "js_join [p] sep = p"
| "js_join (p # q # ps) sep = p @ sep @ js_join (q # ps) sep"

definition substr :: "string \<Rightarrow> nat \<Rightarrow> string" where
  \<comment> \<open>\<open>s.substr(start)\<close> with a non-negative start\<close>
  "substr s start = drop start s"

definition truthy :: "string \<Rightarrow> bool" where
  \<comment> \<open>a string in a condition (\<open>!!s\<close>): only the empty string is falsy\<close>
  "truthy s = (s \<noteq> [])"

definition newArray :: "int \<Rightarrow> 'a \<Rightarrow> 'a list" where
  \<comment> \<open>the loop \<open>for (i = 0; i < size; i++) list.push(value)\<close>: nothing for a size below 1\<close>
  "newArray n v = replicate (nat n) v"

subsection \<open>Bundle names\<close>

definition getBundleName :: "string \<Rightarrow> string \<Rightarrow> string" where
  "getBundleName packageName dir =
     (let parts = js_split packageName ''/'';
          nameParts = (if startsWith packageName ''@'' then drop 1 parts else parts);
          ups = js_join (newArray (int (length nameParts) - 1) ''..'') ''/'';
          relativePath = (if truthy ups then ups else ''.'');
          basename = (if dir = ''bundles'' then js_join nameParts ''-'' @ ''.umd''
                      else if length nameParts = 1 then hd nameParts
                      else js_join (drop 1 nameParts) ''/'')
      in js_join [relativePath, dir, basename @ ''.js''] ''/'')"

subsection \<open>Node's \<open>path\<close> module, POSIX variant\<close>

text \<open>
  The functions of \<open>path\<close> the packager calls, as Node's \<open>lib/path.js\<close> computes them
  on a POSIX host. \<open>path.relative\<close> resolves both arguments against the working directory
  of the process, which is a parameter here (an absolute path).
\<close>

fun normalizeSegments :: "bool \<Rightarrow> string list \<Rightarrow> string list \<Rightarrow> string list" where
  \<comment> \<open>\<open>normalizeString\<close>: \<open>res\<close> holds the segments kept so far, the last one first\<close>
  "normalizeSegments allowAboveRoot res [] = rev res"
| "normalizeSegments allowAboveRoot res (seg # segs) =
     (if seg = [] \<or> seg = ''.'' then normalizeSegments allowAboveRoot res segs
      else if seg = ''..'' then
        (case res of
           r # rs \<Rightarrow>
             (if r = ''..''
              then normalizeSegments allowAboveRoot
                     (if allowAboveRoot then seg # res else res) segs
              else normalizeSegments allowAboveRoot rs segs)
         | [] \<Rightarrow> normalizeSegments allowAboveRoot
                   (if allowAboveRoot then [seg] else []) segs)
      else normalizeSegments allowAboveRoot (seg # res) segs)"

definition normalizeString :: "string \<Rightarrow> bool \<Rightarrow> string" where
  "normalizeString p allowAboveRoot =
     js_join (normalizeSegments allowAboveRoot [] (js_split p ''/'')) ''/''"

definition isAbsolute :: "string \<Rightarrow> bool" where
  "isAbsolute p = startsWith p ''/''"

definition path_normalize :: "string \<Rightarrow> string" where
  "path_normalize p =
     (if p = [] then ''.''
      else
        let trailingSeparator = endsWith p ''/'';
            q = normalizeString p (\<not> isAbsolute p)
        in if q = [] then
             (if isAbsolute p then ''/'' else if trailingSeparator then ''./'' else ''.'')
           else (if isAbsolute p then ''/'' else []) @ q
                @ (if trailingSeparator then ''/'' else []))"

definition path_join :: "string list \<Rightarrow> string" where
  \<comment> \<open>\<open>path.join(...args)\<close>: the non-empty arguments joined by \<open>/\<close>, then normalised\<close>
  "path_join args =
     (let joined = js_join (filter truthy args) ''/''
      in if joined = [] then ''.'' else path_normalize joined)"

definition path_resolve :: "string \<Rightarrow> string \<Rightarrow> string" where
  \<comment> \<open>\<open>path.resolve(p)\<close> in the working directory \<open>cwd\<close>: the working directory is
      put in front of a relative path, empty strings are skipped\<close>
  "path_resolve cwd p =
     (let afterPath = (if p = [] then [] else p @ ''/'');
          resolvedPath = (if isAbsolute p \<or> cwd = [] then afterPath
                          else cwd @ ''/'' @ afterPath);
          resolvedAbsolute = isAbsolute resolvedPath;
          q = normalizeString resolvedPath (\<not> resolvedAbsolute)
      in if resolvedAbsolute then ''/'' @ q else if q \<noteq> [] then q else ''.'')"

fun dropCommon :: "string list \<Rightarrow> string list \<Rightarrow> string list \<times> string list" where
  \<comment> \<open>the segments left of two paths after their longest common leading part\<close>
  "dropCommon (a # as) (b # bs) = (if a = b then dropCommon as bs else (a # as, b # bs))"
| "dropCommon as bs = (as, bs)"

definition pathSegments :: "string \<Rightarrow> string list" where
  \<comment> \<open>the segments of a resolved path\<close>
  "pathSegments p = filter truthy (js_split p ''/'')"

definition path_relative :: "string \<Rightarrow> string \<Rightarrow> string \<Rightarrow> string" where
  \<comment> \<open>\<open>path.relative(from, to)\<close>: one \<open>..\<close> for each segment of \<open>from\<close> below the common
      directory, then the segments of \<open>to\<close> below it\<close>
  "path_relative cwd from to =
     (if from = to then []
      else
        let (fs, ts) = dropCommon (pathSegments (path_resolve cwd from))
                                  (pathSegments (path_resolve cwd to))
        in js_join (map (\<lambda>_. ''..'') fs @ ts) ''/'')"

definition path_dirname :: "string \<Rightarrow> string" where
  \<comment> \<open>\<open>path.dirname(p)\<close>: trailing slashes and the last segment are cut off; the scan
      stops before the first character\<close>
  "path_dirname p =
     (if p = [] then ''.''
      else
        let r = dropWhile (\<lambda>c. c \<noteq> CHR ''/'') (dropWhile (\<lambda>c. c = CHR ''/'') (rev (tl p)))
        in if r = [] then (if isAbsolute p then ''/'' else ''.'')
           else if isAbsolute p \<and> length r = 1 then ''//''
           else take (length r) p)"

definition path_basename :: "string \<Rightarrow> string" where
  \<comment> \<open>\<open>path.basename(p)\<close>: the last segment, trailing slashes ignored\<close>
  "path_basename p =
     rev (takeWhile (\<lambda>c. c \<noteq> CHR ''/'') (dropWhile (\<lambda>c. c = CHR ''/'') (rev p)))"

subsection \<open>More string operations of the packager\<close>

fun replace_first :: "string \<Rightarrow> string \<Rightarrow> string \<Rightarrow> string" where
  \<comment> \<open>\<open>s.replace(pat, rep)\<close> with a string pattern: the first occurrence only
      (the replacement strings of the packager contain no \<open>$\<close>)\<close>
  "replace_first [] pat rep = (if pat = [] then rep else [])"
| "replace_first (c # cs) pat rep =
     (if startsWith (c # cs) pat then rep @ drop (length pat) (c # cs)
      else c # replace_first cs pat rep)"

definition mjs_to_js :: "string \<Rightarrow> string" where
  \<comment> \<open>\<open>file.replace(/\.mjs$/, '.js')\<close>\<close>
  "mjs_to_js file =
     (if endsWith file ''.mjs'' then take (length file - 4) file @ ''.js'' else file)"

definition regex_dot :: "char \<Rightarrow> bool" where
  \<comment> \<open>what an unescaped \<open>.\<close> of a regular expression matches: no line terminator\<close>
  "regex_dot c = (c \<noteq> CHR 0x0A \<and> c \<noteq> CHR 0x0D)"

definition strip_metadata_json :: "string \<Rightarrow> string" where
  \<comment> \<open>\<open>s.replace(/.metadata.json$/, '')\<close>: both dots of the pattern are unescaped\<close>
  "strip_metadata_json s =
     (let t = drop (length s - 14) s
      in if 14 \<le> length s \<and> regex_dot (t ! 0) \<and> take 8 (drop 1 t) = ''metadata''
            \<and> regex_dot (t ! 9) \<and> drop 10 t = ''json''
         then take (length s - 14) s else s)"

definition strip_d_ts :: "string \<Rightarrow> string" where
  \<comment> \<open>\<open>s.replace(/\.d\.tsx?$/, '')\<close>\<close>
  "strip_d_ts s =
     (if endsWith s ''.d.ts'' then take (length s - 5) s
      else if endsWith s ''.d.tsx'' then take (length s - 6) s
      else s)"

definition normalizeSeparators :: "string \<Rightarrow> string" where
  \<comment> \<open>\<open>path.replace(/\\/g, '/')\<close>\<close>
  "normalizeSeparators p = map (\<lambda>c. if c = CHR 0x5C then CHR ''/'' else c) p"

definition split_list :: "string \<Rightarrow> string list" where
  \<comment> \<open>\<open>arg.split(',').filter(s => !!s)\<close>\<close>
  "split_list arg = filter truthy (js_split arg '','')"

subsection \<open>Manifests and their serialisation\<close>

text \<open>
  A parsed \<open>package.json\<close> has the type \<open>{[key: string]: string}\<close> in the source: an
  object with string values, here the list of its properties in creation order. Writing
  a property replaces its value where the key exists and appends it otherwise.
\<close>

type_synonym manifest = "(string \<times> string) list"

definition obj_get :: "manifest \<Rightarrow> string \<Rightarrow> string option" where
  "obj_get obj k = map_of obj k"

fun obj_set :: "manifest \<Rightarrow> string \<Rightarrow> string \<Rightarrow> manifest" where
  "obj_set [] k v = [(k, v)]"
| "obj_set ((k', v') # kvs) k v =
     (if k' = k then (k, v) # kvs else (k', v') # obj_set kvs k v)"

definition hexDigit :: "nat \<Rightarrow> char" where
  "hexDigit n = ''0123456789abcdef'' ! (n mod 16)"

definition json_escape :: "char \<Rightarrow> string" where
  \<comment> \<open>the escapes of \<open>JSON.stringify\<close> inside a string\<close>
  "json_escape c =
     (if c = CHR 0x22 then [CHR 0x5C, CHR 0x22]
      else if c = CHR 0x5C then [CHR 0x5C, CHR 0x5C]
      else if c = CHR 0x08 then [CHR 0x5C, CHR ''b'']
      else if c = CHR 0x09 then [CHR 0x5C, CHR ''t'']
      else if c = CHR 0x0A then [CHR 0x5C, CHR ''n'']
      else if c = CHR 0x0C then [CHR 0x5C, CHR ''f'']
      else if c = CHR 0x0D then [CHR 0x5C, CHR ''r'']
      else if (of_char c :: nat) < 32
      then [CHR 0x5C, CHR ''u'', CHR ''0'', CHR ''0'',
            hexDigit (of_char c div 16), hexDigit (of_char c)]
      else [c])"

definition json_quote :: "string \<Rightarrow> string" where
  "json_quote s = [CHR 0x22] @ concat (map json_escape s) @ [CHR 0x22]"

definition JSON_stringify :: "manifest \<Rightarrow> string" where
  \<comment> \<open>\<open>JSON.stringify(obj, null, 2)\<close> of an object with string values\<close>
  "JSON_stringify obj =
     (if obj = [] then ''{}''
      else ''{'' @ [CHR 0x0A]
           @ js_join (map (\<lambda>(k, v). ''  '' @ json_quote k @ '': '' @ json_quote v) obj)
                     ('','' @ [CHR 0x0A])
           @ [CHR 0x0A] @ ''}'')"

subsection \<open>The file store, the console and exceptions\<close>

text \<open>
  \<open>fs\<close> and \<open>shelljs\<close> act on a store of regular files (resolved paths with their
  contents) and a list of directories (resolved paths; the root \<open>/\<close> is always one). Only
  regular files are read, copied and moved. An operation that fails throws (the packager
  runs \<open>shelljs\<close> with \<open>set('-e')\<close>), and the exception ends the run: reading, copying or
  moving a file that does not exist; creating a directory where a component of the path
  is a regular file; writing where the target is a directory or its parent is not one.
  Every mutation is also appended to a trace.
\<close>

datatype error =
    ENOENT string
  | ENOTDIR string
  | EEXIST string
  | EISDIR string
  | TypeError string
  | SyntaxError string

datatype fs_op =
    Mkdir string
  | WriteFile string string
  | CopyFile string string
  | MoveFile string string
  | Chmod string
  | SedInPlace string string string

type_synonym store = "(string \<times> string) list"

fun store_put :: "store \<Rightarrow> string \<Rightarrow> string \<Rightarrow> store" where
  \<comment> \<open>the store with the file at \<open>k\<close> created or overwritten\<close>
  "store_put [] k v = [(k, v)]"
| "store_put ((k', v') # kvs) k v =
     (if k' = k then (k, v) # kvs else (k', v') # store_put kvs k v)"

definition store_del :: "store \<Rightarrow> string \<Rightarrow> store" where
  "store_del st k = filter (\<lambda>kv. fst kv \<noteq> k) st"

record world =
  cwd :: string
  files :: store
  dirs :: "string list"
  trace :: "fs_op list"
  console :: "string list"

definition isFile :: "world \<Rightarrow> string \<Rightarrow> bool" where
  \<comment> \<open>a regular file at the resolved path \<open>k\<close>\<close>
  "isFile w k = (map_of (files w) k \<noteq> None)"

definition isDirectory :: "world \<Rightarrow> string \<Rightarrow> bool" where
  \<comment> \<open>a directory at the resolved path \<open>k\<close>\<close>
  "isDirectory w k = (k = ''/'' \<or> k \<in> set (dirs w))"

definition pathPrefixes :: "string \<Rightarrow> string list" where
  \<comment> \<open>the directories on the way to a resolved path, and the path itself:
      \<open>/a\<close>, \<open>/a/b\<close>, \<open>/a/b/c\<close> for \<open>/a/b/c\<close>\<close>
  "pathPrefixes k =
     (let segs = pathSegments k
      in map (\<lambda>n. ''/'' @ js_join (take n segs) ''/'') [1 ..< Suc (length segs)])"

definition bindE :: "error + 'a \<Rightarrow> ('a \<Rightarrow> error + 'b) \<Rightarrow> error + 'b" where
  \<comment> \<open>sequencing: an exception of the first step ends the run\<close>
  "bindE m f = (case m of Inl e \<Rightarrow> Inl e | Inr x \<Rightarrow> f x)"

fun foldE :: "('s \<Rightarrow> 'a \<Rightarrow> error + 's) \<Rightarrow> 's \<Rightarrow> 'a list \<Rightarrow> error + 's" where
  \<comment> \<open>\<open>xs.forEach(...)\<close> and \<open>for (const x of xs)\<close> over a body that may throw\<close>
  "foldE f s [] = Inr s"
| "foldE f s (x # xs) = bindE (f s x) (\<lambda>s'. foldE f s' xs)"

definition console_error :: "world \<Rightarrow> string \<Rightarrow> world" where
  "console_error w line = w\<lparr>console := console w @ [line]\<rparr>"

definition readFileSync :: "world \<Rightarrow> string \<Rightarrow> error + string" where
  "readFileSync w p =
     (case map_of (files w) (path_resolve (cwd w) p) of
        None \<Rightarrow> Inl (ENOENT p)
      | Some content \<Rightarrow> Inr content)"

definition writeFileSync :: "world \<Rightarrow> string \<Rightarrow> string \<Rightarrow> error + world" where
  \<comment> \<open>\<open>fs.writeFileSync(p, content)\<close>: fails on a directory, and where a directory on the
      way to \<open>p\<close> is a regular file or does not exist\<close>
  "writeFileSync w p content =
     (let k = path_resolve (cwd w) p
      in if isDirectory w k then Inl (EISDIR p)
         else
           (case find (\<lambda>a. \<not> isDirectory w a) (butlast (pathPrefixes k)) of
              Some a \<Rightarrow> Inl (if isFile w a then ENOTDIR p else ENOENT p)
            | None \<Rightarrow>
                Inr (w\<lparr>files := store_put (files w) k content,
                       trace := trace w @ [WriteFile p content]\<rparr>)))"

definition shx_mkdir :: "world \<Rightarrow> string \<Rightarrow> error + world" where
  \<comment> \<open>\<open>shx.mkdir('-p', dir)\<close>: creates the directory and those on the way to it that do
      not exist yet; fails where one of them is a regular file\<close>
  "shx_mkdir w dir =
     (let k = path_resolve (cwd w) dir
      in case find (isFile w) (pathPrefixes k) of
           Some a \<Rightarrow> Inl (if a = k then EEXIST dir else ENOTDIR dir)
         | None \<Rightarrow>
             Inr (w\<lparr>dirs := dirs w @ filter (\<lambda>a. \<not> isDirectory w a) (pathPrefixes k),
                    trace := trace w @ [Mkdir dir]\<rparr>))"

definition copyTarget :: "world \<Rightarrow> string \<Rightarrow> string \<Rightarrow> string" where
  \<comment> \<open>where \<open>cp\<close> and \<open>mv\<close> put a file: into \<open>dst\<close> if that is a directory, at \<open>dst\<close>
      otherwise\<close>
  "copyTarget w src dst =
     (let d = path_resolve (cwd w) dst
      in if isDirectory w d then path_join [d, path_basename src] else d)"

definition shx_cp :: "world \<Rightarrow> string \<Rightarrow> string \<Rightarrow> error + world" where
  "shx_cp w src dst =
     (case map_of (files w) (path_resolve (cwd w) src) of
        None \<Rightarrow> Inl (ENOENT src)
      | Some content \<Rightarrow>
          if \<not> isDirectory w (path_dirname (copyTarget w src dst)) then Inl (ENOENT dst)
          else Inr (w\<lparr>files := store_put (files w) (copyTarget w src dst) content,
                      trace := trace w @ [CopyFile src dst]\<rparr>))"

definition shx_mv :: "world \<Rightarrow> string \<Rightarrow> string \<Rightarrow> error + world" where
  "shx_mv w src dst =
     (case map_of (files w) (path_resolve (cwd w) src) of
        None \<Rightarrow> Inl (ENOENT src)
      | Some content \<Rightarrow>
          if \<not> isDirectory w (path_dirname (copyTarget w src dst)) then Inl (ENOENT dst)
          else Inr (w\<lparr>files := store_put (store_del (files w) (path_resolve (cwd w) src))
                                  (copyTarget w src dst) content,
                      trace := trace w @ [MoveFile src dst]\<rparr>))"

definition shx_chmod :: "world \<Rightarrow> string \<Rightarrow> world" where
  \<comment> \<open>\<open>shx.chmod('+w', file)\<close>, on a file that has just been moved there\<close>
  "shx_chmod w p = w\<lparr>trace := trace w @ [Chmod p]\<rparr>"

definition shx_sed :: "(string \<Rightarrow> string \<Rightarrow> string \<Rightarrow> string) \<Rightarrow> world \<Rightarrow> string \<Rightarrow> string \<Rightarrow> string
                       \<Rightarrow> error + world" where
  \<comment> \<open>\<open>shx.sed('-i', search, replacement, file)\<close>; what \<open>sed\<close> does to the content is the
      first argument\<close>
  "shx_sed sed w search replacement p =
     (case map_of (files w) (path_resolve (cwd w) p) of
        None \<Rightarrow> Inl (ENOENT p)
      | Some content \<Rightarrow>
          Inr (w\<lparr>files := store_put (files w) (path_resolve (cwd w) p)
                             (sed search replacement content),
                 trace := trace w @ [SedInPlace search replacement p]\<rparr>))"

subsection \<open>The parameters of a run\<close>

text \<open>
  One entry of the modules manifest, as the comment in \<open>main\<close> documents it: \<open>index\<close> and
  \<open>typings\<close> are always there, \<open>metadata\<close> is optional, \<open>guessedPaths\<close> is a flag, and
  \<open>esm5_index\<close> and \<open>esm2015_index\<close> are attached by \<open>main\<close> itself.
\<close>

record moduleFiles =
  index :: string
  typings :: string
  metadata :: "string option"
  guessedPaths :: bool
  esm5_index :: "string option"
  esm2015_index :: "string option"

text \<open>
  The seventeen parameters \<open>main\<close> reads from the params file, in the order of the file,
  with the modules manifest already parsed: the own properties of the object
  \<open>JSON.parse\<close> returns, with distinct keys. A lookup \<open>modulesManifest[name]\<close> that finds no
  own property goes on to \<open>Object.prototype\<close>, see \<open>objectPrototypeMembers\<close>.
\<close>

record params =
  out :: string
  srcDir :: string
  binDir :: string
  genfilesDir :: string
  modulesManifest :: "(string \<times> moduleFiles) list"
  readmeMd :: string
  fesm2015Arg :: string
  fesm5Arg :: string
  esm2015Arg :: string
  esm5Arg :: string
  bundlesArg :: string
  srcsArg :: string
  typeDefinitionsArg :: string
  dataArg :: string
  licenseFile :: string
  dtsBundleArg :: string
  dtsBundleFileSuffix :: string

text \<open>
  Library behaviour the packager relies on and that is left open here: the parser of
  \<open>JSON.parse\<close> on a \<open>package.json\<close> (\<open>None\<close> where it throws), the two regular-expression
  replacements on typings, the JSON rewriting of \<open>rewireMetadata\<close> (\<open>None\<close> where its
  \<open>JSON.parse\<close> throws), and what \<open>sed\<close> replaces.
\<close>

record library =
  JSON_parse :: "string \<Rightarrow> manifest option"
  amdModuleStripped :: "string \<Rightarrow> string"
  licenseCommentsStripped :: "string \<Rightarrow> string"
  metadataRewired :: "string \<Rightarrow> string \<Rightarrow> string option"
  sed :: "string \<Rightarrow> string \<Rightarrow> string \<Rightarrow> string"

definition knownFormatPackageJsonFields :: "string list" where
  "knownFormatPackageJsonFields =
     [''main'', ''fesm2015'', ''esm2015'', ''typings'', ''module'', ''es2015'']"

definition objectPrototypeMembers :: "string list" where
  \<comment> \<open>the properties every object inherits from \<open>Object.prototype\<close>: functions, and the
      prototype itself under \<open>__proto__\<close>; all of them truthy, none with a property
      \<open>guessedPaths\<close> or \<open>esm2015_index\<close>\<close>
  "objectPrototypeMembers =
     [''constructor'', ''__defineGetter__'', ''__defineSetter__'', ''hasOwnProperty'',
      ''__lookupGetter__'', ''__lookupSetter__'', ''isPrototypeOf'', ''propertyIsEnumerable'',
      ''toString'', ''valueOf'', ''__proto__'', ''toLocaleString'']"

definition propertyKey :: "string option \<Rightarrow> string" where
  \<comment> \<open>a possibly \<open>undefined\<close> string used as a property key or printed\<close>
  "propertyKey s = (case s of None \<Rightarrow> ''undefined'' | Some k \<Rightarrow> k)"

definition truthyOpt :: "string option \<Rightarrow> bool" where
  \<comment> \<open>\<open>undefined\<close> and the empty string are falsy\<close>
  "truthyOpt s = (case s of None \<Rightarrow> False | Some k \<Rightarrow> truthy k)"

subsection \<open>Relocating files into the package\<close>

definition rootDirOf :: "params \<Rightarrow> string \<Rightarrow> string" where
  \<comment> \<open>the three-way choice of \<open>rootDir\<close> at the head of \<open>writeFileFromInputPath\<close>\<close>
  "rootDirOf p inputPath =
     (if str_includes inputPath (binDir p) then binDir p
      else if str_includes inputPath (genfilesDir p) then genfilesDir p
      else srcDir p)"

definition outputPathOf :: "params \<Rightarrow> string \<Rightarrow> string \<Rightarrow> string" where
  "outputPathOf p wd inputPath =
     path_join [out p, path_relative wd (rootDirOf p inputPath) inputPath]"

definition writeFileFromInputPath :: "params \<Rightarrow> world \<Rightarrow> string \<Rightarrow> string \<Rightarrow> error + world" where
  "writeFileFromInputPath p w inputPath fileContent =
     (let outputPath = outputPathOf p (cwd w) inputPath
      in bindE (shx_mkdir w (path_dirname outputPath)) (\<lambda>w1.
           writeFileSync w1 outputPath fileContent))"

definition copyFileFromInputPath :: "params \<Rightarrow> world \<Rightarrow> string \<Rightarrow> error + world" where
  "copyFileFromInputPath p w inputPath =
     bindE (readFileSync w inputPath) (writeFileFromInputPath p w inputPath)"

definition srcDirRelative :: "params \<Rightarrow> string \<Rightarrow> string \<Rightarrow> string \<Rightarrow> string" where
  "srcDirRelative p wd from file =
     (let result = normalizeSeparators
            (path_relative wd (path_dirname from)
               (path_join [srcDir p, path_relative wd (binDir p) file]))
      in if startsWith result ''..'' then result else ''./'' @ result)"

definition copyFile :: "library \<Rightarrow> world \<Rightarrow> string \<Rightarrow> string \<Rightarrow> string \<Rightarrow> error + world" where
  "copyFile lib w file baseDir relative =
     (let dir = path_join [baseDir, relative];
          outFile = path_join
            [dir, path_basename (if endsWith file ''.mjs'' then mjs_to_js file else file)]
      in bindE (shx_mkdir w dir) (\<lambda>w0.
         bindE (shx_cp w0 file outFile) (\<lambda>w1.
           if str_includes outFile ''__'' then
             (let outputPath = path_join (dir # js_split (path_basename outFile) ''__'')
              in bindE (shx_mkdir w1 (path_dirname outputPath)) (\<lambda>w1'.
                 bindE (shx_mv w1' (path_join [dir, path_basename file]) outputPath) (\<lambda>w2.
                   if endsWith outFile ''.js''
                   then shx_sed (sed lib) (shx_chmod w2 outputPath)
                          (path_basename file @ ''.map'')
                          (path_basename outputPath @ ''.map'') outputPath
                   else Inr w2)))
           else Inr w1)))"

definition lastIndexOf :: "string \<Rightarrow> string \<Rightarrow> int" where
  \<comment> \<open>\<open>s.lastIndexOf(sub)\<close>, \<open>-1\<close> where \<open>sub\<close> does not occur\<close>
  "lastIndexOf s sub =
     (case filter (\<lambda>i. startsWith (drop i s) sub) (rev [0 ..< Suc (length s)]) of
        [] \<Rightarrow> - 1
      | i # _ \<Rightarrow> int i)"

definition relPath :: "params \<Rightarrow> string \<Rightarrow> string \<Rightarrow> string \<Rightarrow> string" where
  "relPath p wd file suffix =
     (if truthy suffix then
        (let root = take (nat (lastIndexOf file (suffix @ ''/'') + int (length suffix) + 1)) file
         in path_dirname (path_relative wd (path_join [root, srcDir p]) file))
      else path_dirname (path_relative wd (binDir p) file))"

definition writeEsmFile :: "params \<Rightarrow> library \<Rightarrow> world \<Rightarrow> string \<Rightarrow> string \<Rightarrow> string \<Rightarrow> error + world" where
  "writeEsmFile p lib w file suffix outDir =
     (let rel = relPath p (cwd w) file suffix
      in if \<not> startsWith rel ''..'' then copyFile lib w file (path_join [out p, outDir]) rel
         else Inr w)"

definition readTypingsAndStripAmdModule :: "library \<Rightarrow> world \<Rightarrow> string \<Rightarrow> error + string" where
  "readTypingsAndStripAmdModule lib w filePath =
     bindE (readFileSync w filePath) (\<lambda>content. Inr (amdModuleStripped lib content))"

definition rewireMetadata :: "library \<Rightarrow> world \<Rightarrow> string \<Rightarrow> string \<Rightarrow> error + string" where
  "rewireMetadata lib w metadataPath typingsPath =
     bindE (readFileSync w metadataPath) (\<lambda>content.
       let rel = normalizeSeparators
                   (path_relative (cwd w) (path_dirname metadataPath) typingsPath);
           typingsRelativePath =
             replace_first (if \<not> startsWith rel ''..'' then ''./'' @ rel else rel) ''.d.ts'' []
       in case metadataRewired lib content typingsRelativePath of
            None \<Rightarrow> Inl (SyntaxError metadataPath)
          | Some rewired \<Rightarrow> Inr rewired)"

subsection \<open>Amending a manifest\<close>

definition hasExplicitFormatProperties :: "manifest \<Rightarrow> bool" where
  "hasExplicitFormatProperties parsedPackage =
     list_ex (\<lambda>propertyName. propertyName \<in> set knownFormatPackageJsonFields)
             (map fst parsedPackage)"

definition missingModuleWarning :: "world \<Rightarrow> string option \<Rightarrow> world" where
  "missingModuleWarning w packageName =
     console_error (console_error (console_error w
       (''WARNING: no module metadata for package '' @ propertyKey packageName))
       ''   Not updating the package.json file to point to it'')
       ''   The ng_module for this package is possibly missing the module_name attribute ''"

definition explicitFormatWarning :: "world \<Rightarrow> world" where
  "explicitFormatWarning w =
     console_error (console_error (console_error w
       ''WARNING: `package.json` explicitly sets format properties (like `main`).'')
       (''    Skipping automatic insertion of format properties as explicit ''
        @ ''format properties are set.''))
       ''    Ignore this warning if explicit properties are set intentionally.''"

definition setFormatProperties :: "params \<Rightarrow> string \<Rightarrow> string \<Rightarrow> string \<Rightarrow> moduleFiles \<Rightarrow> string
                                   \<Rightarrow> manifest \<Rightarrow> manifest" where
  \<comment> \<open>the six assignments at the end of \<open>amendPackageJson\<close>, in their order; \<open>module\<close> and
      \<open>es2015\<close> read \<open>fesm2015\<close> back from the object, where it has just been written\<close>
  "setFormatProperties p wd packageJson packageName moduleData esm2015Index parsedPackage =
     (let pkg1 = obj_set parsedPackage ''main'' (getBundleName packageName ''bundles'');
          pkg2 = obj_set pkg1 ''fesm2015'' (getBundleName packageName ''fesm2015'');
          pkg3 = obj_set pkg2 ''esm2015'' (srcDirRelative p wd packageJson esm2015Index);
          pkg4 = obj_set pkg3 ''typings'' (srcDirRelative p wd packageJson (typings moduleData));
          flat = (case obj_get pkg4 ''fesm2015'' of None \<Rightarrow> ''undefined'' | Some v \<Rightarrow> v);
          pkg5 = obj_set pkg4 ''module'' flat
      in obj_set pkg5 ''es2015'' flat)"

definition amendPackageJson :: "params \<Rightarrow> world \<Rightarrow> string \<Rightarrow> manifest \<Rightarrow> bool
                                \<Rightarrow> error + (manifest \<times> string \<times> world)" where
  \<comment> \<open>returns the manifest object as the call leaves it, the string it returns, and the
      world. Where the manifest has no own entry for the name but \<open>Object.prototype\<close> has a
      member of that name, \<open>moduleData\<close> is that member: \<open>!moduleData\<close> and
      \<open>moduleData.guessedPaths\<close> are false, and \<open>path.relative\<close> throws on the undefined
      \<open>moduleData['esm2015_index']\<close>\<close>
  "amendPackageJson p w packageJson parsedPackage isGeneratedPackageJson =
     (let packageName = obj_get parsedPackage ''name''
      in case map_of (modulesManifest p) (propertyKey packageName) of
           None \<Rightarrow>
             if propertyKey packageName \<in> set objectPrototypeMembers
             then Inl (TypeError ''path.relative'')
             else Inr (parsedPackage, JSON_stringify parsedPackage,
                       missingModuleWarning w packageName)
         | Some moduleData \<Rightarrow>
             if guessedPaths moduleData \<and> \<not> isGeneratedPackageJson
                \<and> hasExplicitFormatProperties parsedPackage
             then Inr (parsedPackage, JSON_stringify parsedPackage, explicitFormatWarning w)
             else
               (case packageName of
                  None \<Rightarrow> Inl (TypeError ''packageName.split'')
                | Some name \<Rightarrow>
                    (case esm2015_index moduleData of
                       None \<Rightarrow> Inl (TypeError ''path.relative'')
                     | Some esm2015Index \<Rightarrow>
                         (let amended = setFormatProperties p (cwd w) packageJson name
                                          moduleData esm2015Index parsedPackage
                          in Inr (amended, JSON_stringify amended, w)))))"

subsection \<open>Files for secondary entry points\<close>

definition createMetadataReexportFile :: "params \<Rightarrow> world \<Rightarrow> string \<Rightarrow> string \<Rightarrow> string \<Rightarrow> error + world" where
  "createMetadataReexportFile p w entryPointName metadataFile packageName =
     (let inputPath = path_join [srcDir p, entryPointName @ ''.metadata.json'']
      in writeFileFromInputPath p w inputPath
           (''{'' @ json_quote ''__symbolic'' @ '':'' @ json_quote ''module''
            @ '','' @ json_quote ''version'' @ '':3''
            @ '','' @ json_quote ''metadata'' @ '':{}''
            @ '','' @ json_quote ''exports'' @ '':[{'' @ json_quote ''from'' @ '':''
            @ json_quote (srcDirRelative p (cwd w) inputPath (strip_metadata_json metadataFile))
            @ ''}]''
            @ '','' @ json_quote ''flatModuleIndexRedirect'' @ '':true''
            @ '','' @ json_quote ''importAs'' @ '':'' @ json_quote packageName
            @ ''}'' @ [CHR 0x0A]))"

definition createTypingsReexportFile :: "params \<Rightarrow> world \<Rightarrow> string \<Rightarrow> string \<Rightarrow> string \<Rightarrow> error + world" where
  "createTypingsReexportFile p w entryPointName license typingsFile =
     (let inputPath = path_join [srcDir p, entryPointName @ ''.d.ts'']
      in writeFileFromInputPath p w inputPath
           (license @ [CHR 0x0A] @ ''export * from '' @ [CHR 0x27]
            @ srcDirRelative p (cwd w) inputPath (strip_d_ts typingsFile)
            @ [CHR 0x27] @ '';'' @ [CHR 0x0A]))"

definition createEntryPointPackageJson :: "params \<Rightarrow> world \<Rightarrow> string \<Rightarrow> string \<Rightarrow> error + world" where
  "createEntryPointPackageJson p w dir entryPointPackageName =
     (let pkgJson = path_join [srcDir p, dir, ''package.json'']
      in bindE (amendPackageJson p w pkgJson [(''name'', entryPointPackageName)] True)
           (\<lambda>(parsedPackage, content, w1). writeFileFromInputPath p w1 pkgJson content))"

subsection \<open>The run\<close>

definition withEsmIndex :: "params \<Rightarrow> string \<Rightarrow> moduleFiles \<Rightarrow> moduleFiles" where
  \<comment> \<open>the two paths the first loop over the modules attaches to an entry\<close>
  "withEsmIndex p wd mf =
     (let relative = path_relative wd (binDir p) (index mf)
      in mf\<lparr>esm5_index := Some (path_join [binDir p, ''esm5'', relative]),
            esm2015_index := Some (path_join [binDir p, ''esm2015'', relative])\<rparr>)"

definition withEsmIndexes :: "params \<Rightarrow> string \<Rightarrow> params" where
  \<comment> \<open>the modules manifest as the first loop over the modules leaves it\<close>
  "withEsmIndexes p wd =
     p\<lparr>modulesManifest :=
         map (\<lambda>(moduleName, mf). (moduleName, withEsmIndex p wd mf)) (modulesManifest p)\<rparr>"

definition packageMetadata :: "params \<Rightarrow> library \<Rightarrow> string list \<Rightarrow> world \<Rightarrow> moduleFiles \<Rightarrow> error + world" where
  \<comment> \<open>the rest of the body of the first loop over the modules\<close>
  "packageMetadata p lib dtsBundles w mf =
     (case metadata mf of
        None \<Rightarrow> Inr w
      | Some metadataFile \<Rightarrow>
          if \<not> truthy metadataFile then Inr w
          else if dtsBundles \<noteq> [] then
            bindE (rewireMetadata lib w metadataFile (typings mf))
                  (writeFileFromInputPath p w metadataFile)
          else copyFileFromInputPath p w metadataFile)"

definition packageDtsBundle :: "params \<Rightarrow> library \<Rightarrow> string \<Rightarrow> world \<Rightarrow> string \<Rightarrow> error + world" where
  \<comment> \<open>the body of \<open>dtsBundles.forEach\<close>\<close>
  "packageDtsBundle p lib licenseBanner w bundleFile =
     (let cleanDistPath = replace_first bundleFile (dtsBundleFileSuffix p) ''.d.ts''
      in bindE (readTypingsAndStripAmdModule lib w bundleFile) (\<lambda>typings.
           writeFileFromInputPath p w cleanDistPath
             (licenseBanner @ [CHR 0x0A] @ licenseCommentsStripped lib typings)))"

text \<open>The variables of \<open>main\<close> that the loop over \<open>srcs\<close> updates.\<close>

record run =
  errorHasOccured :: bool
  rootPackageName :: "string option"
  packagesWithExistingPackageJson :: "string option list"
  now :: world

definition srcsDiagnostic :: "string \<Rightarrow> string" where
  "srcsDiagnostic src =
     ''The '' @ [CHR 0x22] @ ''srcs'' @ [CHR 0x22]
     @ '' for ng_package should not include output of other rules. Found:''
     @ [CHR 0x0A] @ ''  '' @ src"

definition fromOutputTree :: "params \<Rightarrow> string \<Rightarrow> bool" where
  \<comment> \<open>the test at the head of the loop over \<open>srcs\<close>\<close>
  "fromOutputTree p src = (str_includes src (binDir p) \<or> str_includes src (genfilesDir p))"

definition nextRootPackageName :: "string option \<Rightarrow> string option \<Rightarrow> error + string option" where
  \<comment> \<open>\<open>if (!rootPackageName || packageName.length < rootPackageName.length)
        rootPackageName = packageJson['name']\<close>; \<open>.length\<close> of \<open>undefined\<close> throws\<close>
  "nextRootPackageName root packageName =
     (case root of
        None \<Rightarrow> Inr packageName
      | Some r \<Rightarrow>
          if \<not> truthy r then Inr packageName
          else (case packageName of
                  None \<Rightarrow> Inl (TypeError ''packageName.length'')
                | Some n \<Rightarrow> Inr (if length n < length r then packageName else root)))"

definition noteOutputTree :: "params \<Rightarrow> run \<Rightarrow> string \<Rightarrow> run" where
  \<comment> \<open>the head of the body of \<open>for (const src of srcs)\<close>: the error is recorded and
      reported, nothing else\<close>
  "noteOutputTree p r src =
     (if fromOutputTree p src
      then r\<lparr>errorHasOccured := True,
             now := console_error (now r) (srcsDiagnostic src)\<rparr>
      else r)"

definition packageContent :: "params \<Rightarrow> library \<Rightarrow> run \<Rightarrow> string \<Rightarrow> error + run" where
  \<comment> \<open>the rest of the body: the file is read, amended if it is a manifest, and written\<close>
  "packageContent p lib r src =
     bindE (readFileSync (now r) src) (\<lambda>content.
       if path_basename src = ''package.json'' then
         (case JSON_parse lib content of
            None \<Rightarrow> Inl (SyntaxError src)
          | Some packageJson \<Rightarrow>
              bindE (amendPackageJson p (now r) src packageJson False)
                (\<lambda>(amended, content', w1).
                   let packageName = obj_get amended ''name''
                   in bindE (nextRootPackageName (rootPackageName r) packageName)
                        (\<lambda>root.
                           bindE (writeFileFromInputPath p w1 src content') (\<lambda>w2.
                             Inr (r\<lparr>rootPackageName := root,
                                    packagesWithExistingPackageJson :=
                                      packagesWithExistingPackageJson r @ [packageName],
                                    now := w2\<rparr>)))))
       else bindE (writeFileFromInputPath p (now r) src content)
              (\<lambda>w2. Inr (r\<lparr>now := w2\<rparr>)))"

definition packageSrc :: "params \<Rightarrow> library \<Rightarrow> run \<Rightarrow> string \<Rightarrow> error + run" where
  \<comment> \<open>the body of \<open>for (const src of srcs)\<close>\<close>
  "packageSrc p lib r src = packageContent p lib (noteOutputTree p r src) src"

definition packageEntryPoint :: "params \<Rightarrow> string \<Rightarrow> run \<Rightarrow> world \<Rightarrow> string \<Rightarrow> error + world" where
  \<comment> \<open>the body of the last loop over the modules; \<open>r\<close> is the state the loop over
      \<open>srcs\<close> left\<close>
  "packageEntryPoint p licenseBanner r w entryPointPackageName =
     (case rootPackageName r of
        None \<Rightarrow> Inl (TypeError ''rootPackageName.length'')
      | Some root \<Rightarrow>
          (let entryPointName = substr entryPointPackageName (length root + 1)
           in if \<not> truthy entryPointName then Inr w
              else
                (case map_of (modulesManifest p) entryPointPackageName of
                   None \<Rightarrow> Inl (TypeError ''modulesManifest[entryPointPackageName]'')
                 | Some mf \<Rightarrow>
                     bindE (if truthyOpt (metadata mf)
                            then createMetadataReexportFile p w entryPointName
                                   (propertyKey (metadata mf)) entryPointPackageName
                            else Inr w) (\<lambda>w1.
                     bindE (createTypingsReexportFile p w1 entryPointName licenseBanner
                              (typings mf)) (\<lambda>w2.
                       if Some entryPointPackageName \<notin> set (packagesWithExistingPackageJson r)
                       then createEntryPointPackageJson p w2 entryPointName
                              entryPointPackageName
                       else Inr w2)))))"

definition packagePrelude :: "params \<Rightarrow> library \<Rightarrow> world \<Rightarrow> error + (world \<times> string)" where
  \<comment> \<open>\<open>main\<close> from the copy of the README up to the loop over \<open>srcs\<close>; the result is the
      world it leaves and the license banner\<close>
  "packagePrelude p lib w0 =
     (let fesm2015 = split_list (fesm2015Arg p);
          esm2015 = split_list (esm2015Arg p);
          bundles = split_list (bundlesArg p);
          typeDefinitions = split_list (typeDefinitionsArg p);
          dataFiles = split_list (dataArg p);
          dtsBundles = split_list (dtsBundleArg p)
      in bindE (if truthy (readmeMd p) then copyFile lib w0 (readmeMd p) (out p) ''.''
                else Inr w0) (\<lambda>w1.
         bindE (foldE (\<lambda>w file. writeEsmFile p lib w file [] ''esm2015'') w1 esm2015) (\<lambda>w2.
         bindE (foldE (\<lambda>w bundle. copyFile lib w bundle (out p) ''bundles'') w2 bundles) (\<lambda>w3.
         bindE (foldE (\<lambda>w file. copyFile lib w file (out p) ''fesm2015'') w3 fesm2015) (\<lambda>w4.
         bindE (foldE (\<lambda>w f. bindE (readTypingsAndStripAmdModule lib w f)
                                     (writeFileFromInputPath p w f)) w4 typeDefinitions) (\<lambda>w5.
         bindE (foldE (copyFileFromInputPath p) w5 dataFiles) (\<lambda>w6.
         bindE (foldE (packageMetadata p lib dtsBundles) w6 (map snd (modulesManifest p))) (\<lambda>w7.
         bindE (if truthy (licenseFile p) then readFileSync w7 (licenseFile p) else Inr [])
           (\<lambda>licenseBanner.
         bindE (foldE (packageDtsBundle p lib licenseBanner) w7 dtsBundles) (\<lambda>w8.
         Inr (w8, licenseBanner)))))))))))"

definition firstRun :: "world \<Rightarrow> run" where
  \<comment> \<open>the variables of \<open>main\<close> before the loop over \<open>srcs\<close>\<close>
  "firstRun w = \<lparr>errorHasOccured = False, rootPackageName = Some [],
                 packagesWithExistingPackageJson = [], now = w\<rparr>"

definition main :: "params \<Rightarrow> library \<Rightarrow> world \<Rightarrow> error + (world \<times> nat)" where
  \<comment> \<open>\<open>main\<close> from the parsed parameters on; the result is the world it leaves and
      the exit code it returns\<close>
  "main p0 lib w0 =
     (let p = withEsmIndexes p0 (cwd w0)
      in bindE (packagePrelude p lib w0) (\<lambda>(w8, licenseBanner).
         bindE (foldE (packageSrc p lib) (firstRun w8) (split_list (srcsArg p))) (\<lambda>r.
         bindE (foldE (packageEntryPoint p licenseBanner r) (now r)
                  (map fst (modulesManifest p))) (\<lambda>w9.
         Inr (w9, if errorHasOccured r then 1 else 0)))))"

subsection \<open>Runs that differ in what they report only\<close>



subsection \<open>Notions of the specification\<close>

definition otherFields :: "manifest \<Rightarrow> manifest" where
  \<comment> \<open>the properties of a manifest that are not format fields, in their order\<close>
  "otherFields m = filter (\<lambda>kv. fst kv \<notin> set knownFormatPackageJsonFields) m"

definition firstOfMinimumLength :: "string list \<Rightarrow> string \<Rightarrow> bool" where
  \<comment> \<open>\<open>x\<close> is the first element of \<open>xs\<close> whose length is the minimum over \<open>xs\<close>\<close>
  "firstOfMinimumLength xs x =
     (\<exists>before after. xs = before @ x # after
        \<and> (\<forall>y \<in> set before. length x < length y)
        \<and> (\<forall>y \<in> set after. length x \<le> length y))"

subsection \<open>A small package, for concrete runs\<close>

definition pkg_http :: moduleFiles where
  "pkg_http =
     \<lparr>index = ''bin/pkg/http/http.js'',
      typings = ''bin/pkg/http/http.d.ts'',
      metadata = Some ''bin/pkg/http/http.metadata.json'',
      guessedPaths = False,
      esm5_index = Some ''bin/pkg/esm5/http/http.js'',
      esm2015_index = Some ''bin/pkg/esm2015/http/http.js''\<rparr>"

definition pkg_guessed :: moduleFiles where
  "pkg_guessed =
     \<lparr>index = ''bin/pkg/g/index.js'',
      typings = ''bin/pkg/g/index.d.ts'',
      metadata = None,
      guessedPaths = True,
      esm5_index = Some ''bin/pkg/esm5/g/index.js'',
      esm2015_index = Some ''bin/pkg/esm2015/g/index.js''\<rparr>"

definition pkg_params :: params where
  "pkg_params =
     \<lparr>out = ''dist'',
      srcDir = ''pkg'',
      binDir = ''bin/pkg'',
      genfilesDir = ''gen/pkg'',
      modulesManifest = [(''@a/c/http'', pkg_http), (''@a/c/g'', pkg_guessed)],
      readmeMd = [],
      fesm2015Arg = [],
      fesm5Arg = [],
      esm2015Arg = [],
      esm5Arg = [],
      bundlesArg = [],
      srcsArg = [],
      typeDefinitionsArg = [],
      dataArg = [],
      licenseFile = [],
      dtsBundleArg = [],
      dtsBundleFileSuffix = ''.bundle.d.ts''\<rparr>"

definition empty_world :: world where
  "empty_world = \<lparr>cwd = ''/w'', files = [], dirs = [''/w''], trace = [], console = []\<rparr>"

definition plain_library :: library where
  \<comment> \<open>a library that parses the three manifests of the examples and rewrites nothing\<close>
  "plain_library =
     \<lparr>JSON_parse = (\<lambda>content.
          find (\<lambda>m. JSON_stringify m = content)
               [[(''name'', [])], [(''name'', ''abc'')], [(''name'', ''abcd'')]]),
      amdModuleStripped = (\<lambda>content. content),
      licenseCommentsStripped = (\<lambda>content. content),
      metadataRewired = (\<lambda>content typingsRelativePath. Some content),
      sed = (\<lambda>search replacement content. content)\<rparr>"

definition manifests_world :: world where
  \<comment> \<open>three manifests, named by the empty string, \<open>abc\<close> and \<open>abcd\<close>\<close>
  "manifests_world =
     empty_world\<lparr>files :=
       [(''/w/pkg/package.json'', JSON_stringify [(''name'', [])]),
        (''/w/pkg/abc/package.json'', JSON_stringify [(''name'', ''abc'')]),
        (''/w/pkg/abcd/package.json'', JSON_stringify [(''name'', ''abcd'')])],
       dirs := [''/w'', ''/w/pkg'', ''/w/pkg/abc'', ''/w/pkg/abcd'']\<rparr>"



definition escaped_js_world :: world where
  "escaped_js_world =
     empty_world\<lparr>files := [(''/w/bin/pkg/http__testing.js'', ''export {};'')],
                 dirs := [''/w'', ''/w/bin'', ''/w/bin/pkg'']\<rparr>"

definition escaped_mjs_world :: world where
  "escaped_mjs_world =
     empty_world\<lparr>files := [(''/w/bin/pkg/http__testing.mjs'', ''export {};'')],
                 dirs := [''/w'', ''/w/bin'', ''/w/bin/pkg'']\<rparr>"

section \<open>Properties of the model\<close>

subsection \<open>Sequencing and loops\<close>

lemma bindE_eq_Inr: "(bindE m f = Inr y) = (\<exists>x. m = Inr x \<and> f x = Inr y)"
  by (cases m) (simp_all add: bindE_def)

lemma bindE_eq_Inl: "(bindE m f = Inl e) = (m = Inl e \<or> (\<exists>x. m = Inr x \<and> f x = Inl e))"
  by (cases m) (simp_all add: bindE_def)


lemma foldE_append:
  "foldE f s (xs @ ys) = bindE (foldE f s xs) (\<lambda>s'. foldE f s' ys)"
  by (induction xs arbitrary: s) (auto simp: bindE_def split: sum.splits)

lemma foldE_failure:
  assumes "foldE f s xs = Inl e"
  shows "\<exists>before x after s'. xs = before @ x # after
           \<and> foldE f s before = Inr s' \<and> f s' x = Inl e"
  using assms
proof (induction xs arbitrary: s)
  case Nil
  then show ?case by simp
next
  case (Cons x xs)
  show ?case
  proof (cases "f s x")
    case (Inl e')
    with Cons.prems have "e' = e" by (simp add: bindE_def)
    with Inl have "x # xs = [] @ x # xs \<and> foldE f s [] = Inr s \<and> f s x = Inl e" by simp
    then show ?thesis by blast
  next
    case (Inr s1)
    with Cons.prems have "foldE f s1 xs = Inl e" by (simp add: bindE_def)
    from Cons.IH[OF this] obtain before y after s' where
      "xs = before @ y # after" "foldE f s1 before = Inr s'" "f s' y = Inl e" by blast
    with Inr have "x # xs = (x # before) @ y # after \<and> foldE f s (x # before) = Inr s'
        \<and> f s' y = Inl e" by (simp add: bindE_def)
    then show ?thesis by blast
  qed
qed

subsection \<open>What the file operations change\<close>

lemma shx_mkdir_world:
  assumes "shx_mkdir w dir = Inr w'"
  shows "cwd w' = cwd w" and "files w' = files w" and "console w' = console w"
    and "trace w' = trace w @ [Mkdir dir]"
  using assms by (auto simp: shx_mkdir_def Let_def split: option.splits)

lemma writeFileSync_world:
  assumes "writeFileSync w p content = Inr w'"
  shows "cwd w' = cwd w" and "dirs w' = dirs w" and "console w' = console w"
    and "files w' = store_put (files w) (path_resolve (cwd w) p) content"
    and "trace w' = trace w @ [WriteFile p content]"
  using assms by (auto simp: writeFileSync_def Let_def split: option.splits if_splits)

lemma writeFileFromInputPath_eq:
  "writeFileFromInputPath p w i c
   = bindE (shx_mkdir w (path_dirname (outputPathOf p (cwd w) i)))
       (\<lambda>w1. writeFileSync w1 (outputPathOf p (cwd w) i) c)"
  by (simp add: writeFileFromInputPath_def Let_def)

lemma writeFileFromInputPath_world:
  assumes "writeFileFromInputPath p w i c = Inr w'"
  shows "trace w' = trace w @ [Mkdir (path_dirname (outputPathOf p (cwd w) i)),
                               WriteFile (outputPathOf p (cwd w) i) c]"
    and "cwd w' = cwd w" and "console w' = console w"
    and "files w' = store_put (files w) (path_resolve (cwd w) (outputPathOf p (cwd w) i)) c"
proof -
  from assms obtain w1 where
    m: "shx_mkdir w (path_dirname (outputPathOf p (cwd w) i)) = Inr w1"
    and f: "writeFileSync w1 (outputPathOf p (cwd w) i) c = Inr w'"
    unfolding writeFileFromInputPath_eq bindE_eq_Inr by blast
  show "trace w' = trace w @ [Mkdir (path_dirname (outputPathOf p (cwd w) i)),
                               WriteFile (outputPathOf p (cwd w) i) c]"
    using shx_mkdir_world[OF m] writeFileSync_world[OF f] by simp
  show "cwd w' = cwd w" using shx_mkdir_world[OF m] writeFileSync_world[OF f] by simp
  show "console w' = console w" using shx_mkdir_world[OF m] writeFileSync_world[OF f] by simp
  show "files w' = store_put (files w) (path_resolve (cwd w) (outputPathOf p (cwd w) i)) c"
    using shx_mkdir_world[OF m] writeFileSync_world[OF f] by simp
qed

lemma amendPackageJson_world:
  assumes "amendPackageJson p w pj m g = Inr (m', c, w')"
  shows "trace w' = trace w" and "cwd w' = cwd w" and "files w' = files w"
    and "dirs w' = dirs w"
  using assms
  by (auto simp: amendPackageJson_def Let_def missingModuleWarning_def explicitFormatWarning_def
        console_error_def split: option.splits if_splits)

subsection \<open>The loop over the source list\<close>


lemma noteOutputTree_run:
  "errorHasOccured (noteOutputTree p r src) = (errorHasOccured r \<or> fromOutputTree p src)"
  "cwd (now (noteOutputTree p r src)) = cwd (now r)"
  "trace (now (noteOutputTree p r src)) = trace (now r)"
  "files (now (noteOutputTree p r src)) = files (now r)"
  "dirs (now (noteOutputTree p r src)) = dirs (now r)"
  "rootPackageName (noteOutputTree p r src) = rootPackageName r"
  "packagesWithExistingPackageJson (noteOutputTree p r src) = packagesWithExistingPackageJson r"
  by (auto simp: noteOutputTree_def console_error_def)

lemma packageContent_step:
  assumes "packageContent p lib r src = Inr r'"
  shows "errorHasOccured r' = errorHasOccured r"
    and "cwd (now r') = cwd (now r)"
    and "\<exists>content. trace (now r') = trace (now r)
            @ [Mkdir (path_dirname (outputPathOf p (cwd (now r)) src)),
               WriteFile (outputPathOf p (cwd (now r)) src) content]"
    and "(packagesWithExistingPackageJson r' = packagesWithExistingPackageJson r
            \<and> rootPackageName r' = rootPackageName r)
         \<or> (\<exists>n. packagesWithExistingPackageJson r' = packagesWithExistingPackageJson r @ [n]
               \<and> nextRootPackageName (rootPackageName r) n = Inr (rootPackageName r'))"
proof -
  from assms obtain content where
    rest: "(if path_basename src = ''package.json'' then
         (case JSON_parse lib content of
            None \<Rightarrow> Inl (SyntaxError src)
          | Some packageJson \<Rightarrow>
              bindE (amendPackageJson p (now r) src packageJson False)
                (\<lambda>(amended, content', w1).
                   let packageName = obj_get amended ''name''
                   in bindE (nextRootPackageName (rootPackageName r) packageName)
                        (\<lambda>root.
                           bindE (writeFileFromInputPath p w1 src content') (\<lambda>w2.
                             Inr (r\<lparr>rootPackageName := root,
                                    packagesWithExistingPackageJson :=
                                      packagesWithExistingPackageJson r @ [packageName],
                                    now := w2\<rparr>)))))
       else bindE (writeFileFromInputPath p (now r) src content)
              (\<lambda>w2. Inr (r\<lparr>now := w2\<rparr>))) = Inr r'"
    unfolding packageContent_def by (auto simp: bindE_eq_Inr)
  show "errorHasOccured r' = errorHasOccured r"
    using rest
    by (auto simp: bindE_eq_Inr Let_def split: if_splits option.splits)
  show "cwd (now r') = cwd (now r)"
    using rest
    by (auto simp: bindE_eq_Inr Let_def writeFileFromInputPath_world amendPackageJson_world
        split: if_splits option.splits)
  show "\<exists>content. trace (now r') = trace (now r)
            @ [Mkdir (path_dirname (outputPathOf p (cwd (now r)) src)),
               WriteFile (outputPathOf p (cwd (now r)) src) content]"
    using rest
    by (auto simp: bindE_eq_Inr Let_def writeFileFromInputPath_world amendPackageJson_world
        split: if_splits option.splits)
  show "(packagesWithExistingPackageJson r' = packagesWithExistingPackageJson r
            \<and> rootPackageName r' = rootPackageName r)
         \<or> (\<exists>n. packagesWithExistingPackageJson r' = packagesWithExistingPackageJson r @ [n]
               \<and> nextRootPackageName (rootPackageName r) n = Inr (rootPackageName r'))"
    using rest
    by (auto simp: bindE_eq_Inr Let_def split: if_splits option.splits)
qed

lemma packageSrc_step:
  assumes "packageSrc p lib r src = Inr r'"
  shows "errorHasOccured r' = (errorHasOccured r \<or> fromOutputTree p src)"
    and "cwd (now r') = cwd (now r)"
    and "\<exists>content. trace (now r') = trace (now r)
            @ [Mkdir (path_dirname (outputPathOf p (cwd (now r)) src)),
               WriteFile (outputPathOf p (cwd (now r)) src) content]"
    and "(packagesWithExistingPackageJson r' = packagesWithExistingPackageJson r
            \<and> rootPackageName r' = rootPackageName r)
         \<or> (\<exists>n. packagesWithExistingPackageJson r' = packagesWithExistingPackageJson r @ [n]
               \<and> nextRootPackageName (rootPackageName r) n = Inr (rootPackageName r'))"
  using packageContent_step[OF assms[unfolded packageSrc_def]]
  by (simp_all add: noteOutputTree_run)

lemma packageSrc_loop:
  assumes "foldE (packageSrc p lib) r srcs = Inr r'"
  shows "errorHasOccured r' = (errorHasOccured r \<or> (\<exists>src \<in> set srcs. fromOutputTree p src))"
    and "cwd (now r') = cwd (now r)"
    and "\<exists>ops. trace (now r') = trace (now r) @ ops
           \<and> (\<forall>src \<in> set srcs. \<exists>content.
                 WriteFile (outputPathOf p (cwd (now r)) src) content \<in> set ops)"
    and "\<exists>names. packagesWithExistingPackageJson r' = packagesWithExistingPackageJson r @ names
           \<and> foldE nextRootPackageName (rootPackageName r) names = Inr (rootPackageName r')"
  using assms
proof (induction srcs arbitrary: r)
  case Nil
  { case 1 then show ?case by simp }
  { case 2 then show ?case by simp }
  { case 3 then show ?case by simp }
  { case 4 then show ?case by simp }
next
  case (Cons src srcs)
  { case 1
    then obtain r1 where s: "packageSrc p lib r src = Inr r1"
      and l: "foldE (packageSrc p lib) r1 srcs = Inr r'"
      by (auto simp: bindE_eq_Inr)
    show ?case using packageSrc_step(1)[OF s] Cons.IH(1)[OF l] by auto }
  { case 2
    then obtain r1 where s: "packageSrc p lib r src = Inr r1"
      and l: "foldE (packageSrc p lib) r1 srcs = Inr r'"
      by (auto simp: bindE_eq_Inr)
    show ?case using packageSrc_step(2)[OF s] Cons.IH(2)[OF l] by auto }
  { case 3
    then obtain r1 where s: "packageSrc p lib r src = Inr r1"
      and l: "foldE (packageSrc p lib) r1 srcs = Inr r'"
      by (auto simp: bindE_eq_Inr)
    from packageSrc_step(3)[OF s] obtain content where
      t1: "trace (now r1) = trace (now r)
            @ [Mkdir (path_dirname (outputPathOf p (cwd (now r)) src)),
               WriteFile (outputPathOf p (cwd (now r)) src) content]" by blast
    from Cons.IH(3)[OF l] obtain ops where
      t2: "trace (now r') = trace (now r1) @ ops"
      and w: "\<forall>x \<in> set srcs. \<exists>c. WriteFile (outputPathOf p (cwd (now r1)) x) c \<in> set ops"
      by blast
    have c: "cwd (now r1) = cwd (now r)" by (rule packageSrc_step(2)[OF s])
    let ?ops = "[Mkdir (path_dirname (outputPathOf p (cwd (now r)) src)),
               WriteFile (outputPathOf p (cwd (now r)) src) content] @ ops"
    have "trace (now r') = trace (now r) @ ?ops" using t1 t2 by simp
    moreover have "\<forall>x \<in> set (src # srcs). \<exists>c.
        WriteFile (outputPathOf p (cwd (now r)) x) c \<in> set ?ops"
      using w c by auto
    ultimately show ?case by blast }
  { case 4
    then obtain r1 where s: "packageSrc p lib r src = Inr r1"
      and l: "foldE (packageSrc p lib) r1 srcs = Inr r'"
      by (auto simp: bindE_eq_Inr)
    from Cons.IH(4)[OF l] obtain names where
      n: "packagesWithExistingPackageJson r' = packagesWithExistingPackageJson r1 @ names"
      and f: "foldE nextRootPackageName (rootPackageName r1) names = Inr (rootPackageName r')"
      by blast
    from packageSrc_step(4)[OF s] show ?case
    proof
      assume "packagesWithExistingPackageJson r1 = packagesWithExistingPackageJson r
            \<and> rootPackageName r1 = rootPackageName r"
      with n f show ?thesis by auto
    next
      assume "\<exists>n. packagesWithExistingPackageJson r1 = packagesWithExistingPackageJson r @ [n]
               \<and> nextRootPackageName (rootPackageName r) n = Inr (rootPackageName r1)"
      then obtain x where x: "packagesWithExistingPackageJson r1 = packagesWithExistingPackageJson r @ [x]"
        and y: "nextRootPackageName (rootPackageName r) x = Inr (rootPackageName r1)" by blast
      have "packagesWithExistingPackageJson r' = packagesWithExistingPackageJson r @ (x # names)"
        using n x by simp
      moreover have "foldE nextRootPackageName (rootPackageName r) (x # names) = Inr (rootPackageName r')"
        using y f by (simp add: bindE_def)
      ultimately show ?thesis by blast
    qed }
qed

subsection \<open>The working directory stays\<close>










subsection \<open>The body of the last loop over the modules\<close>

text \<open>
  The body is a sequence of writes through \<open>writeFileFromInputPath\<close>.
\<close>

lemma writes_world:
  assumes "foldE (\<lambda>w' (i, c). writeFileFromInputPath p w' i c) w ws = Inr w'"
  shows "cwd w' = cwd w"
    and "trace w' = trace w @ concat (map (\<lambda>(i, c).
            [Mkdir (path_dirname (outputPathOf p (cwd w) i)),
             WriteFile (outputPathOf p (cwd w) i) c]) ws)"
    and "files w' = foldl (\<lambda>st (i, c).
            store_put st (path_resolve (cwd w) (outputPathOf p (cwd w) i)) c) (files w) ws"
  using assms
proof (induction ws arbitrary: w)
  case Nil
  { case 1 then show ?case by simp }
  { case 2 then show ?case by simp }
  { case 3 then show ?case by simp }
next
  case (Cons a ws)
  obtain i c where a: "a = (i, c)" by (cases a)
  { case 1
    then obtain w1 where s: "writeFileFromInputPath p w i c = Inr w1"
      and l: "foldE (\<lambda>w' (i, c). writeFileFromInputPath p w' i c) w1 ws = Inr w'"
      by (auto simp: a bindE_eq_Inr)
    show ?case using Cons.IH(1)[OF l] writeFileFromInputPath_world(2)[OF s] by simp }
  { case 2
    then obtain w1 where s: "writeFileFromInputPath p w i c = Inr w1"
      and l: "foldE (\<lambda>w' (i, c). writeFileFromInputPath p w' i c) w1 ws = Inr w'"
      by (auto simp: a bindE_eq_Inr)
    show ?case
      using Cons.IH(2)[OF l] writeFileFromInputPath_world(1,2)[OF s] by (simp add: a) }
  { case 3
    then obtain w1 where s: "writeFileFromInputPath p w i c = Inr w1"
      and l: "foldE (\<lambda>w' (i, c). writeFileFromInputPath p w' i c) w1 ws = Inr w'"
      by (auto simp: a bindE_eq_Inr)
    show ?case
      using Cons.IH(3)[OF l] writeFileFromInputPath_world(2,4)[OF s] by (simp add: a) }
qed

lemma setFormatProperties_name_only:
  "setFormatProperties p wd pj name mf e [(''name'', name)]
   = [(''name'', name),
      (''main'', getBundleName name ''bundles''),
      (''fesm2015'', getBundleName name ''fesm2015''),
      (''esm2015'', srcDirRelative p wd pj e),
      (''typings'', srcDirRelative p wd pj (typings mf)),
      (''module'', getBundleName name ''fesm2015''),
      (''es2015'', getBundleName name ''fesm2015'')]"
  by (simp add: setFormatProperties_def Let_def obj_get_def)

lemma amendPackageJson_generated:
  assumes "map_of (modulesManifest p) name = Some mf" and "esm2015_index mf = Some e"
  shows "amendPackageJson p w pj [(''name'', name)] True
         = Inr (setFormatProperties p (cwd w) pj name mf e [(''name'', name)],
                JSON_stringify (setFormatProperties p (cwd w) pj name mf e [(''name'', name)]),
                w)"
  using assms by (simp add: amendPackageJson_def obj_get_def propertyKey_def Let_def)

lemma createEntryPointPackageJson_eq:
  assumes "map_of (modulesManifest p) name = Some mf" and "esm2015_index mf = Some e"
  shows "createEntryPointPackageJson p w dir name
         = writeFileFromInputPath p w (path_join [srcDir p, dir, ''package.json''])
             (JSON_stringify (setFormatProperties p (cwd w)
                 (path_join [srcDir p, dir, ''package.json'']) name mf e [(''name'', name)]))"
  by (simp add: createEntryPointPackageJson_def Let_def amendPackageJson_generated[OF assms]
        bindE_def)

lemma packageEntryPoint_skip:
  assumes "rootPackageName r = Some root"
    and "\<not> truthy (substr name (length root + 1))"
  shows "packageEntryPoint p lb r w name = Inr w"
  using assms by (simp add: packageEntryPoint_def Let_def)

lemma packageEntryPoint_writes:
  assumes "rootPackageName r = Some root"
    and "truthy (substr name (length root + 1))"
    and "map_of (modulesManifest p) name = Some mf" and "esm2015_index mf = Some e"
  shows "packageEntryPoint p lb r w name
         = foldE (\<lambda>w' (i, c). writeFileFromInputPath p w' i c) w
             ((case metadata mf of
                 None \<Rightarrow> []
               | Some metadataFile \<Rightarrow>
                   if truthy metadataFile
                   then [(path_join [srcDir p, substr name (length root + 1) @ ''.metadata.json''],
                          ''{'' @ json_quote ''__symbolic'' @ '':'' @ json_quote ''module''
                          @ '','' @ json_quote ''version'' @ '':3''
                          @ '','' @ json_quote ''metadata'' @ '':{}''
                          @ '','' @ json_quote ''exports'' @ '':[{'' @ json_quote ''from'' @ '':''
                          @ json_quote (srcDirRelative p (cwd w)
                               (path_join [srcDir p,
                                  substr name (length root + 1) @ ''.metadata.json''])
                               (strip_metadata_json metadataFile))
                          @ ''}]''
                          @ '','' @ json_quote ''flatModuleIndexRedirect'' @ '':true''
                          @ '','' @ json_quote ''importAs'' @ '':'' @ json_quote name
                          @ ''}'' @ [CHR 0x0A])]
                   else [])
              @ [(path_join [srcDir p, substr name (length root + 1) @ ''.d.ts''],
                  lb @ [CHR 0x0A] @ ''export * from '' @ [CHR 0x27]
                  @ srcDirRelative p (cwd w)
                      (path_join [srcDir p, substr name (length root + 1) @ ''.d.ts''])
                      (strip_d_ts (typings mf))
                  @ [CHR 0x27] @ '';'' @ [CHR 0x0A])]
              @ (if Some name \<notin> set (packagesWithExistingPackageJson r)
                 then [(path_join [srcDir p, substr name (length root + 1), ''package.json''],
                        JSON_stringify
                          [(''name'', name),
                           (''main'', getBundleName name ''bundles''),
                           (''fesm2015'', getBundleName name ''fesm2015''),
                           (''esm2015'', srcDirRelative p (cwd w)
                              (path_join [srcDir p, substr name (length root + 1), ''package.json''])
                              e),
                           (''typings'', srcDirRelative p (cwd w)
                              (path_join [srcDir p, substr name (length root + 1), ''package.json''])
                              (typings mf)),
                           (''module'', getBundleName name ''fesm2015''),
                           (''es2015'', getBundleName name ''fesm2015'')])]
                 else []))"
proof -
  define en where "en = substr name (length root + 1)"
  define mIn where "mIn = path_join [srcDir p, en @ ''.metadata.json'']"
  define tIn where "tIn = path_join [srcDir p, en @ ''.d.ts'']"
  define jIn where "jIn = path_join [srcDir p, en, ''package.json'']"
  define W where "W = (\<lambda>w' (ic :: string \<times> string).
                          writeFileFromInputPath p w' (fst ic) (snd ic))"
  define tC where "tC = (\<lambda>wd. lb @ [CHR 0x0A] @ ''export * from '' @ [CHR 0x27]
                  @ srcDirRelative p wd tIn (strip_d_ts (typings mf))
                  @ [CHR 0x27] @ '';'' @ [CHR 0x0A])"
  define jC where "jC = (\<lambda>wd. JSON_stringify (setFormatProperties p wd jIn name mf e
                            [(''name'', name)]))"
  define mC where "mC = (\<lambda>wd metadataFile.
                          ''{'' @ json_quote ''__symbolic'' @ '':'' @ json_quote ''module''
                          @ '','' @ json_quote ''version'' @ '':3''
                          @ '','' @ json_quote ''metadata'' @ '':{}''
                          @ '','' @ json_quote ''exports'' @ '':[{'' @ json_quote ''from'' @ '':''
                          @ json_quote (srcDirRelative p wd mIn (strip_metadata_json metadataFile))
                          @ ''}]''
                          @ '','' @ json_quote ''flatModuleIndexRedirect'' @ '':true''
                          @ '','' @ json_quote ''importAs'' @ '':'' @ json_quote name
                          @ ''}'' @ [CHR 0x0A])"
  define ms where "ms = (case metadata mf of None \<Rightarrow> []
                         | Some metadataFile \<Rightarrow>
                             if truthy metadataFile then [(mIn, mC (cwd w) metadataFile)] else [])"
  define js where "js = (\<lambda>wd. if Some name \<notin> set (packagesWithExistingPackageJson r)
                               then [(jIn, jC wd)] else [])"
  have Weq: "(\<lambda>w' (i, c). writeFileFromInputPath p w' i c) = W"
    by (auto simp: W_def fun_eq_iff)
  have unfold: "packageEntryPoint p lb r w name =
          bindE (if truthyOpt (metadata mf)
                 then createMetadataReexportFile p w en (propertyKey (metadata mf)) name
                 else Inr w) (\<lambda>w1.
            bindE (createTypingsReexportFile p w1 en lb (typings mf)) (\<lambda>w2.
              if Some name \<notin> set (packagesWithExistingPackageJson r)
              then createEntryPointPackageJson p w2 en name else Inr w2))"
    using assms(1,2,3) unfolding packageEntryPoint_def Let_def en_def by simp
  have first: "(if truthyOpt (metadata mf)
                 then createMetadataReexportFile p w en (propertyKey (metadata mf)) name
                 else Inr w) = foldE W w ms"
    by (cases "metadata mf")
       (auto simp: truthyOpt_def propertyKey_def ms_def createMetadataReexportFile_def Let_def
          W_def mC_def mIn_def bindE_def split: sum.splits)
  have second: "createTypingsReexportFile p w1 en lb (typings mf) = W w1 (tIn, tC (cwd w1))" for w1
    by (simp add: createTypingsReexportFile_def Let_def W_def tC_def tIn_def)
  have third: "(if Some name \<notin> set (packagesWithExistingPackageJson r)
              then createEntryPointPackageJson p w2 en name else Inr w2)
             = foldE W w2 (js (cwd w2))" for w2
    by (auto simp: createEntryPointPackageJson_eq[OF assms(3,4)] js_def W_def jC_def jIn_def
          bindE_def split: sum.splits)
  have msc: "foldE W w ms = Inr w1 \<Longrightarrow> cwd w1 = cwd w" for w1
    using writes_world(1)[of p w ms w1] unfolding Weq by simp
  have tc: "W w1 (tIn, tC wd) = Inr w2 \<Longrightarrow> cwd w2 = cwd w1" for w1 w2 wd
    by (simp add: W_def writeFileFromInputPath_world)
  have "packageEntryPoint p lb r w name
        = bindE (foldE W w ms) (\<lambda>w1. bindE (W w1 (tIn, tC (cwd w1))) (\<lambda>w2.
            foldE W w2 (js (cwd w2))))"
    unfolding unfold first second third ..
  also have "\<dots> = bindE (foldE W w ms) (\<lambda>w1. bindE (W w1 (tIn, tC (cwd w))) (\<lambda>w2.
            foldE W w2 (js (cwd w))))"
  proof (cases "foldE W w ms")
    case (Inl e')
    then show ?thesis by (simp add: bindE_def)
  next
    case (Inr w1)
    note c1 = msc[OF Inr]
    show ?thesis
    proof (cases "W w1 (tIn, tC (cwd w))")
      case (Inl e')
      then show ?thesis using Inr c1 by (simp add: bindE_def)
    next
      case inr2: (Inr w2)
      from tc[OF inr2] c1 have "cwd w2 = cwd w" by simp
      then show ?thesis using Inr inr2 c1 by (simp add: bindE_def)
    qed
  qed
  also have "\<dots> = foldE W w (ms @ [(tIn, tC (cwd w))] @ js (cwd w))"
    by (simp add: foldE_append bindE_def split: sum.splits)
  finally show ?thesis
    unfolding Weq[symmetric] ms_def js_def mC_def tC_def jC_def mIn_def tIn_def jIn_def en_def
      setFormatProperties_name_only .
qed

subsection \<open>The parameters after the first loop over the modules\<close>


subsection \<open>Manifest objects and separators\<close>

lemma obj_get_obj_set: "obj_get (obj_set m k v) k' = (if k' = k then Some v else obj_get m k')"
  by (induction m) (auto simp: obj_get_def)

lemma keys_obj_set:
  "map fst (obj_set m k v) = (if k \<in> set (map fst m) then map fst m else map fst m @ [k])"
  by (induction m) fastforce+

lemma otherFields_obj_set:
  "k \<in> set knownFormatPackageJsonFields \<Longrightarrow> otherFields (obj_set m k v) = otherFields m"
  unfolding otherFields_def by (induction m) auto

lemma otherFields_setFormatProperties:
  "otherFields (setFormatProperties p wd pj n md e m) = otherFields m"
  by (simp add: setFormatProperties_def Let_def otherFields_obj_set knownFormatPackageJsonFields_def)

lemma keys_setFormatProperties:
  "set (map fst (setFormatProperties p wd pj n md e m))
   = set knownFormatPackageJsonFields \<union> set (map fst m)"
proof -
  have step: "set (map fst (obj_set x k v)) = insert k (set (map fst x))" for x k v
    unfolding keys_obj_set by auto
  show ?thesis
    unfolding setFormatProperties_def Let_def step knownFormatPackageJsonFields_def
    by auto
qed

lemma obj_get_setFormatProperties:
  "k \<notin> set knownFormatPackageJsonFields \<Longrightarrow>
   obj_get (setFormatProperties p wd pj n md e m) k = obj_get m k"
  by (simp add: setFormatProperties_def Let_def obj_get_obj_set knownFormatPackageJsonFields_def)



subsection \<open>Entry point names\<close>

lemma substr_entry_point:
  "substr (root @ delimiter # entryPointName) (length root + 1) = entryPointName"
  by (simp add: substr_def)

lemma withEsmIndexes_esm2015_index:
  assumes "map_of (modulesManifest (withEsmIndexes p wd)) name = Some mf"
  shows "esm2015_index mf \<noteq> None"
proof -
  from assms have "(name, mf) \<in> set (modulesManifest (withEsmIndexes p wd))"
    by (rule map_of_SomeD)
  then show ?thesis
    by (auto simp: withEsmIndexes_def withEsmIndex_def Let_def)
qed

subsection \<open>Root detection as a fold over the manifest names\<close>

lemma firstOfMinimumLength_keep:
  assumes "firstOfMinimumLength (r # ns) x" and "length r \<le> length n"
  shows "firstOfMinimumLength (r # n # ns) x"
proof -
  from assms(1) obtain before after where
    s: "r # ns = before @ x # after"
    and b: "\<forall>y \<in> set before. length x < length y"
    and a: "\<forall>y \<in> set after. length x \<le> length y"
    unfolding firstOfMinimumLength_def by blast
  show ?thesis
  proof (cases before)
    case Nil
    with s have "x = r" "after = ns" by simp_all
    with a assms(2) have "r # n # ns = [] @ x # (n # after)"
      and "\<forall>y \<in> set (n # after). length x \<le> length y" by simp_all
    then show ?thesis unfolding firstOfMinimumLength_def by force
  next
    case (Cons h t)
    with s have h: "h = r" and ns: "ns = t @ x # after" by simp_all
    from b Cons h have "length x < length r" by simp
    with assms(2) b Cons h have "\<forall>y \<in> set (r # n # t). length x < length y" by auto
    moreover have "r # n # ns = (r # n # t) @ x # after" using ns by simp
    ultimately show ?thesis using a unfolding firstOfMinimumLength_def by blast
  qed
qed

lemma firstOfMinimumLength_replace:
  assumes "firstOfMinimumLength (n # ns) x" and "length n < length r"
  shows "firstOfMinimumLength (r # n # ns) x"
proof -
  from assms(1) obtain before after where
    s: "n # ns = before @ x # after"
    and b: "\<forall>y \<in> set before. length x < length y"
    and a: "\<forall>y \<in> set after. length x \<le> length y"
    unfolding firstOfMinimumLength_def by blast
  have "length x \<le> length n"
  proof (cases before)
    case Nil
    with s show ?thesis by simp
  next
    case (Cons h t)
    with s b show ?thesis by simp
  qed
  with assms(2) b have "\<forall>y \<in> set (r # before). length x < length y" by auto
  moreover have "r # n # ns = (r # before) @ x # after" using s by simp
  ultimately show ?thesis using a unfolding firstOfMinimumLength_def by blast
qed

lemma nextRootPackageName_loop:
  assumes "r \<noteq> []" and "\<forall>n \<in> set ns. n \<noteq> []"
  shows "\<exists>x. foldE nextRootPackageName (Some r) (map Some ns) = Inr (Some x)
             \<and> firstOfMinimumLength (r # ns) x"
  using assms
proof (induction ns arbitrary: r)
  case Nil
  have "firstOfMinimumLength [r] r"
    unfolding firstOfMinimumLength_def by force
  then show ?case by simp
next
  case (Cons n ns)
  show ?case
  proof (cases "length n < length r")
    case True
    from Cons.prems have "n \<noteq> []" "\<forall>m \<in> set ns. m \<noteq> []" by simp_all
    from Cons.IH[OF this] obtain x where
      f: "foldE nextRootPackageName (Some n) (map Some ns) = Inr (Some x)"
      and m: "firstOfMinimumLength (n # ns) x" by blast
    have "foldE nextRootPackageName (Some r) (map Some (n # ns)) = Inr (Some x)"
      using True Cons.prems(1) f by (simp add: nextRootPackageName_def truthy_def bindE_def)
    with firstOfMinimumLength_replace[OF m True] show ?thesis by blast
  next
    case False
    from Cons.prems have "r \<noteq> []" "\<forall>m \<in> set ns. m \<noteq> []" by simp_all
    from Cons.IH[OF this] obtain x where
      f: "foldE nextRootPackageName (Some r) (map Some ns) = Inr (Some x)"
      and m: "firstOfMinimumLength (r # ns) x" by blast
    have "foldE nextRootPackageName (Some r) (map Some (n # ns)) = Inr (Some x)"
      using False Cons.prems(1) f by (simp add: nextRootPackageName_def truthy_def bindE_def)
    moreover have "firstOfMinimumLength (r # n # ns) x"
      using m False by (intro firstOfMinimumLength_keep) simp_all
    ultimately show ?thesis by blast
  qed
qed

subsection \<open>The trace only grows, and the phases of \<open>main\<close>\<close>







subsection \<open>The loop over the source list, with and without the check\<close>















subsection \<open>Two calls, for reference\<close>

lemma amendPackageJson_no_entry:
  assumes "map_of (modulesManifest p) (propertyKey (obj_get parsedPackage ''name'')) = None"
    and "propertyKey (obj_get parsedPackage ''name'') \<notin> set objectPrototypeMembers"
  shows "amendPackageJson p w packageJson parsedPackage isGeneratedPackageJson
         = Inr (parsedPackage, JSON_stringify parsedPackage,
                w\<lparr>console := console w @
                  [''WARNING: no module metadata for package ''
                     @ propertyKey (obj_get parsedPackage ''name''),
                   ''   Not updating the package.json file to point to it'',
                   ''   The ng_module for this package is possibly missing the module_name attribute '']\<rparr>)"
  using assms
  by (simp add: amendPackageJson_def missingModuleWarning_def console_error_def)

lemma copyFile_escaped_js:
  "copyFile plain_library escaped_js_world ''bin/pkg/http__testing.js'' ''dist'' ''fesm2015''
   = Inr \<lparr>cwd = ''/w'',
           files = [(''/w/bin/pkg/http__testing.js'', ''export {};''),
                    (''/w/dist/fesm2015/http/testing.js'', ''export {};'')],
           dirs = [''/w'', ''/w/bin'', ''/w/bin/pkg'', ''/w/dist'', ''/w/dist/fesm2015'',
                   ''/w/dist/fesm2015/http''],
           trace = [Mkdir ''dist/fesm2015'',
                    CopyFile ''bin/pkg/http__testing.js'' ''dist/fesm2015/http__testing.js'',
                    Mkdir ''dist/fesm2015/http'',
                    MoveFile ''dist/fesm2015/http__testing.js'' ''dist/fesm2015/http/testing.js'',
                    Chmod ''dist/fesm2015/http/testing.js'',
                    SedInPlace ''http__testing.js.map'' ''testing.js.map''
                      ''dist/fesm2015/http/testing.js''],
           console = []\<rparr>"
  by code_simp

subsection \<open>Single steps of the loops, for concrete runs\<close>



lemma packageSrc_manifest_unflagged:
  assumes "\<not> fromOutputTree p src" and "path_basename src = ''package.json''"
    and "readFileSync (now r) src = Inr content"
    and "JSON_parse lib content = Some packageJson"
    and "amendPackageJson p (now r) src packageJson False = Inr (amended, content', w1)"
    and "nextRootPackageName (rootPackageName r) (obj_get amended ''name'') = Inr root"
    and "writeFileFromInputPath p w1 src content' = Inr w2"
  shows "packageSrc p lib r src
         = Inr (r\<lparr>rootPackageName := root,
                  packagesWithExistingPackageJson :=
                    packagesWithExistingPackageJson r @ [obj_get amended ''name''],
                  now := w2\<rparr>)"
  using assms
  by (simp add: packageSrc_def packageContent_def noteOutputTree_def Let_def bindE_def)




section \<open>The claims\<close>

subsection \<open>C1: input paths outside the three trees\<close>

text \<open>
  C1 (as the specification states it, refuted). The path \<open>third_party/LICENSE\<close> contains
  none of the three roots \<open>bin/pkg\<close>, \<open>gen/pkg\<close> and \<open>pkg\<close>, and
  \<open>writeFileFromInputPath\<close> does not fail on it: it takes \<open>srcDir\<close> as the root, creates
  the directory and writes the file, here even outside the output directory \<open>dist\<close>.
\<close>

theorem writeFileFromInputPath_unmatched_counterexample:
  "\<not> str_includes ''third_party/LICENSE'' (binDir pkg_params)
   \<and> \<not> str_includes ''third_party/LICENSE'' (genfilesDir pkg_params)
   \<and> \<not> str_includes ''third_party/LICENSE'' (srcDir pkg_params)
   \<and> writeFileFromInputPath pkg_params empty_world ''third_party/LICENSE'' ''text''
       = Inr \<lparr>cwd = ''/w'', files = [(''/w/third_party/LICENSE'', ''text'')],
              dirs = [''/w'', ''/w/third_party''],
              trace = [Mkdir ''third_party'', WriteFile ''third_party/LICENSE'' ''text''],
              console = []\<rparr>"
  by code_simp

text \<open>
  C1, amended. The choice of the root has a default and is never the reason of a failure.
  With \<open>written rootDir\<close> for: create the directory of
  \<open>join(out, relative(rootDir, inputPath))\<close> and the directories on the way to it, then write
  the content to that path, where a failure of either step is the failure of the call,
  \<open>writeFileFromInputPath\<close> is \<open>written binDir\<close> for an input path that contains the
  \<open>binDir\<close> path; \<open>written genfilesDir\<close> for one that does not but contains the
  \<open>genfilesDir\<close> path; and \<open>written srcDir\<close> for every other path, whether or not it
  lies under \<open>srcDir\<close>.
\<close>

theorem writeFileFromInputPath_default_root:
  "(let written = (\<lambda>rootDir.
          bindE (shx_mkdir w
                   (path_dirname (path_join [out p, path_relative (cwd w) rootDir inputPath])))
            (\<lambda>w1. writeFileSync w1
                     (path_join [out p, path_relative (cwd w) rootDir inputPath]) content))
    in (str_includes inputPath (binDir p) \<longrightarrow>
          writeFileFromInputPath p w inputPath content = written (binDir p))
     \<and> (\<not> str_includes inputPath (binDir p) \<and> str_includes inputPath (genfilesDir p) \<longrightarrow>
          writeFileFromInputPath p w inputPath content = written (genfilesDir p))
     \<and> (\<not> str_includes inputPath (binDir p) \<and> \<not> str_includes inputPath (genfilesDir p) \<longrightarrow>
          writeFileFromInputPath p w inputPath content = written (srcDir p)))"
  by (simp add: writeFileFromInputPath_eq outputPathOf_def rootDirOf_def)

text \<open>
  The amended C1 at \<open>README.md\<close>, a path outside all three trees, which is written; at a
  path of the \<open>binDir\<close> tree and at one of the \<open>genfilesDir\<close> tree; and at a path of the
  source tree in a world where \<open>dist\<close> is a regular file, so that the directory cannot be
  created and the call fails.
\<close>

theorem writeFileFromInputPath_default_root_witness:
  "\<not> str_includes ''README.md'' (binDir pkg_params)
   \<and> \<not> str_includes ''README.md'' (genfilesDir pkg_params)
   \<and> writeFileFromInputPath pkg_params empty_world ''README.md'' ''text''
       = Inr \<lparr>cwd = ''/w'', files = [(''/w/README.md'', ''text'')], dirs = [''/w''],
              trace = [Mkdir ''.'', WriteFile ''README.md'' ''text''],
              console = []\<rparr>
   \<and> str_includes ''bin/pkg/a/b.txt'' (binDir pkg_params)
   \<and> writeFileFromInputPath pkg_params empty_world ''bin/pkg/a/b.txt'' ''text''
       = Inr \<lparr>cwd = ''/w'', files = [(''/w/dist/a/b.txt'', ''text'')],
              dirs = [''/w'', ''/w/dist'', ''/w/dist/a''],
              trace = [Mkdir ''dist/a'', WriteFile ''dist/a/b.txt'' ''text''],
              console = []\<rparr>
   \<and> \<not> str_includes ''gen/pkg/a/b.txt'' (binDir pkg_params)
   \<and> str_includes ''gen/pkg/a/b.txt'' (genfilesDir pkg_params)
   \<and> writeFileFromInputPath pkg_params empty_world ''gen/pkg/a/b.txt'' ''text''
       = Inr \<lparr>cwd = ''/w'', files = [(''/w/dist/a/b.txt'', ''text'')],
              dirs = [''/w'', ''/w/dist'', ''/w/dist/a''],
              trace = [Mkdir ''dist/a'', WriteFile ''dist/a/b.txt'' ''text''],
              console = []\<rparr>
   \<and> \<not> str_includes ''pkg/a.txt'' (binDir pkg_params)
   \<and> \<not> str_includes ''pkg/a.txt'' (genfilesDir pkg_params)
   \<and> writeFileFromInputPath pkg_params (empty_world\<lparr>files := [(''/w/dist'', ''x'')]\<rparr>)
         ''pkg/a.txt'' ''text''
       = Inl (EEXIST ''dist'')"
proof -
  let ?p = pkg_params
  let ?blocked = "empty_world\<lparr>files := [(''/w/dist'', ''x'')]\<rparr>"
  have b1: "\<not> str_includes ''README.md'' (binDir ?p)" by code_simp
  have g1: "\<not> str_includes ''README.md'' (genfilesDir ?p)" by code_simp
  have v1: "bindE (shx_mkdir empty_world
                   (path_dirname (path_join [out ?p,
                      path_relative (cwd empty_world) (srcDir ?p) ''README.md''])))
            (\<lambda>w1. writeFileSync w1
                     (path_join [out ?p,
                        path_relative (cwd empty_world) (srcDir ?p) ''README.md'']) ''text'')
           = Inr \<lparr>cwd = ''/w'', files = [(''/w/README.md'', ''text'')], dirs = [''/w''],
              trace = [Mkdir ''.'', WriteFile ''README.md'' ''text''],
              console = []\<rparr>"
    by code_simp
  have b2: "str_includes ''bin/pkg/a/b.txt'' (binDir ?p)" by code_simp
  have v2: "bindE (shx_mkdir empty_world
                   (path_dirname (path_join [out ?p,
                      path_relative (cwd empty_world) (binDir ?p) ''bin/pkg/a/b.txt''])))
            (\<lambda>w1. writeFileSync w1
                     (path_join [out ?p,
                        path_relative (cwd empty_world) (binDir ?p) ''bin/pkg/a/b.txt'']) ''text'')
           = Inr \<lparr>cwd = ''/w'', files = [(''/w/dist/a/b.txt'', ''text'')],
              dirs = [''/w'', ''/w/dist'', ''/w/dist/a''],
              trace = [Mkdir ''dist/a'', WriteFile ''dist/a/b.txt'' ''text''],
              console = []\<rparr>"
    by code_simp
  have b3: "\<not> str_includes ''gen/pkg/a/b.txt'' (binDir ?p)" by code_simp
  have g3: "str_includes ''gen/pkg/a/b.txt'' (genfilesDir ?p)" by code_simp
  have v3: "bindE (shx_mkdir empty_world
                   (path_dirname (path_join [out ?p,
                      path_relative (cwd empty_world) (genfilesDir ?p) ''gen/pkg/a/b.txt''])))
            (\<lambda>w1. writeFileSync w1
                     (path_join [out ?p,
                        path_relative (cwd empty_world) (genfilesDir ?p) ''gen/pkg/a/b.txt''])
                     ''text'')
           = Inr \<lparr>cwd = ''/w'', files = [(''/w/dist/a/b.txt'', ''text'')],
              dirs = [''/w'', ''/w/dist'', ''/w/dist/a''],
              trace = [Mkdir ''dist/a'', WriteFile ''dist/a/b.txt'' ''text''],
              console = []\<rparr>"
    by code_simp
  have b4: "\<not> str_includes ''pkg/a.txt'' (binDir ?p)" by code_simp
  have g4: "\<not> str_includes ''pkg/a.txt'' (genfilesDir ?p)" by code_simp
  have v4: "bindE (shx_mkdir ?blocked
                   (path_dirname (path_join [out ?p,
                      path_relative (cwd ?blocked) (srcDir ?p) ''pkg/a.txt''])))
            (\<lambda>w1. writeFileSync w1
                     (path_join [out ?p,
                        path_relative (cwd ?blocked) (srcDir ?p) ''pkg/a.txt'']) ''text'')
           = Inl (EEXIST ''dist'')"
    by code_simp
  have e1: "writeFileFromInputPath ?p empty_world ''README.md'' ''text''
       = Inr \<lparr>cwd = ''/w'', files = [(''/w/README.md'', ''text'')], dirs = [''/w''],
              trace = [Mkdir ''.'', WriteFile ''README.md'' ''text''],
              console = []\<rparr>"
    using writeFileFromInputPath_default_root[of empty_world ?p "''README.md''" "''text''",
            unfolded Let_def, THEN conjunct2, THEN conjunct2, THEN mp, OF conjI[OF b1 g1]]
    unfolding v1 .
  have e2: "writeFileFromInputPath ?p empty_world ''bin/pkg/a/b.txt'' ''text''
       = Inr \<lparr>cwd = ''/w'', files = [(''/w/dist/a/b.txt'', ''text'')],
              dirs = [''/w'', ''/w/dist'', ''/w/dist/a''],
              trace = [Mkdir ''dist/a'', WriteFile ''dist/a/b.txt'' ''text''],
              console = []\<rparr>"
    using writeFileFromInputPath_default_root[of empty_world ?p "''bin/pkg/a/b.txt''" "''text''",
            unfolded Let_def, THEN conjunct1, THEN mp, OF b2]
    unfolding v2 .
  have e3: "writeFileFromInputPath ?p empty_world ''gen/pkg/a/b.txt'' ''text''
       = Inr \<lparr>cwd = ''/w'', files = [(''/w/dist/a/b.txt'', ''text'')],
              dirs = [''/w'', ''/w/dist'', ''/w/dist/a''],
              trace = [Mkdir ''dist/a'', WriteFile ''dist/a/b.txt'' ''text''],
              console = []\<rparr>"
    using writeFileFromInputPath_default_root[of empty_world ?p "''gen/pkg/a/b.txt''" "''text''",
            unfolded Let_def, THEN conjunct2, THEN conjunct1, THEN mp, OF conjI[OF b3 g3]]
    unfolding v3 .
  have e4: "writeFileFromInputPath ?p ?blocked ''pkg/a.txt'' ''text'' = Inl (EEXIST ''dist'')"
    using writeFileFromInputPath_default_root[of ?blocked ?p "''pkg/a.txt''" "''text''",
            unfolded Let_def, THEN conjunct2, THEN conjunct2, THEN mp, OF conjI[OF b4 g4]]
    unfolding v4 .
  from b1 g1 e1 b2 e2 b3 g3 e3 b4 g4 e4 show ?thesis by blast
qed

subsection \<open>C2: manifests that already declare format fields\<close>




subsection \<open>C3: bundle names\<close>

text \<open>
  C3 (the examples of the specification, against the code). The code drops the scope
  segment from the bundle's base name and climbs one level per name segment after the
  first, so the three results the specification lists are not the ones computed:
  none of the three package names yields the listed path.
\<close>

theorem getBundleName_spec_examples_counterexample:
  "getBundleName ''@scope/foo/bar'' ''bundles'' \<noteq> ''../bundles/scope-foo-bar.umd.js''
   \<and> getBundleName ''@angular/common/http'' ''bundles'' \<noteq> ''../../bundles/common-http.umd.js''
   \<and> getBundleName ''@angular/common'' ''bundles'' \<noteq> ''../bundles/common.umd.js''"
  by code_simp

text \<open>
  C3, amended: \<open>getBundleName\<close> on the three package names of the specification gives
  \<open>../bundles/foo-bar.umd.js\<close>, \<open>../bundles/common-http.umd.js\<close> and
  \<open>./bundles/common.umd.js\<close>; the example in the code's own comment,
  \<open>@angular/common/http/testing\<close>, gives \<open>../../bundles/common-http-testing.umd.js\<close>.
\<close>

theorem getBundleName_examples:
  "getBundleName ''@scope/foo/bar'' ''bundles'' = ''../bundles/foo-bar.umd.js''
   \<and> getBundleName ''@angular/common/http'' ''bundles'' = ''../bundles/common-http.umd.js''
   \<and> getBundleName ''@angular/common'' ''bundles'' = ''./bundles/common.umd.js''
   \<and> getBundleName ''@angular/common/http/testing'' ''bundles''
       = ''../../bundles/common-http-testing.umd.js''"
  by code_simp

subsection \<open>C4: relative references\<close>



subsection \<open>C5: manifests without a module entry\<close>

text \<open>
  C5 (the code at the failing input). The modules manifest has no entry named
  \<open>constructor\<close>, and a \<open>package.json\<close> of the source list declares that name. The lookup
  \<open>modulesManifest[packageName]\<close> then finds the member \<open>constructor\<close> that every object
  inherits, so the branch that reports the missing module is not taken: no warning is
  logged, and the call ends with the exception \<open>path.relative\<close> throws on the undefined
  \<open>esm2015_index\<close>. (For a name that is neither an entry of the manifest nor a member of
  \<open>Object.prototype\<close> the warning is logged and the manifest returned as it is, see
  \<open>amendPackageJson_no_entry\<close>.)
\<close>

theorem amendPackageJson_inherited_member:
  "map_of (modulesManifest pkg_params)
     (propertyKey (obj_get [(''name'', ''constructor'')] ''name'')) = None
   \<and> amendPackageJson pkg_params empty_world ''pkg/package.json''
        [(''name'', ''constructor'')] False
       = Inl (TypeError ''path.relative'')"
  by code_simp

subsection \<open>C6: the exit code\<close>



subsection \<open>C7: files of a secondary entry point\<close>

text \<open>
  C7. Let the local name of a module entry be its name without the first
  \<open>length root + 1\<close> characters (the root name and one delimiter). An entry with an empty
  local name, the root itself among them, is skipped: the world is left as it is. For an
  entry with a non-empty local name, the body of the last loop of \<open>main\<close> is exactly this
  sequence of writes through \<open>writeFileFromInputPath\<close>, each with the content given here,
  and it fails where one of them fails: the metadata re-export file at
  \<open>srcDir/<local name>.metadata.json\<close> if and only if the entry has a non-empty metadata
  path; then the typings re-export file at \<open>srcDir/<local name>.d.ts\<close>, always; then the
  manifest at \<open>srcDir/<local name>/package.json\<close> if and only if the entry's name is not
  among the names of the manifests met in the source list. Where the body returns, the
  trace has grown by one directory creation and one write for each of these files, in this
  order, and the store of files holds each of them with its content. (\<open>main\<close> has
  attached \<open>esm2015_index\<close> to every entry before this loop.)
\<close>

theorem packageEntryPoint_produces:
  assumes "rootPackageName r = Some root"
    and "map_of (modulesManifest p) entryPointPackageName = Some mf"
    and "esm2015_index mf = Some esm2015Index"
  shows "let entryPointName = substr entryPointPackageName (length root + 1);
             metadataPath = path_join [srcDir p, entryPointName @ ''.metadata.json''];
             typingsPath = path_join [srcDir p, entryPointName @ ''.d.ts''];
             manifestPath = path_join [srcDir p, entryPointName, ''package.json''];
             produced =
               (case metadata mf of
                  None \<Rightarrow> []
                | Some metadataFile \<Rightarrow>
                    if truthy metadataFile
                    then [(metadataPath,
                           ''{'' @ json_quote ''__symbolic'' @ '':'' @ json_quote ''module''
                           @ '','' @ json_quote ''version'' @ '':3''
                           @ '','' @ json_quote ''metadata'' @ '':{}''
                           @ '','' @ json_quote ''exports'' @ '':[{'' @ json_quote ''from'' @ '':''
                           @ json_quote (srcDirRelative p (cwd w) metadataPath
                                           (strip_metadata_json metadataFile))
                           @ ''}]''
                           @ '','' @ json_quote ''flatModuleIndexRedirect'' @ '':true''
                           @ '','' @ json_quote ''importAs'' @ '':''
                           @ json_quote entryPointPackageName
                           @ ''}'' @ [CHR 0x0A])]
                    else [])
               @ [(typingsPath,
                   licenseBanner @ [CHR 0x0A] @ ''export * from '' @ [CHR 0x27]
                   @ srcDirRelative p (cwd w) typingsPath (strip_d_ts (typings mf))
                   @ [CHR 0x27] @ '';'' @ [CHR 0x0A])]
               @ (if Some entryPointPackageName \<notin> set (packagesWithExistingPackageJson r)
                  then [(manifestPath,
                         JSON_stringify
                           [(''name'', entryPointPackageName),
                            (''main'', getBundleName entryPointPackageName ''bundles''),
                            (''fesm2015'', getBundleName entryPointPackageName ''fesm2015''),
                            (''esm2015'', srcDirRelative p (cwd w) manifestPath esm2015Index),
                            (''typings'', srcDirRelative p (cwd w) manifestPath (typings mf)),
                            (''module'', getBundleName entryPointPackageName ''fesm2015''),
                            (''es2015'', getBundleName entryPointPackageName ''fesm2015'')])]
                  else [])
         in (\<not> truthy entryPointName \<longrightarrow>
               packageEntryPoint p licenseBanner r w entryPointPackageName = Inr w)
          \<and> (truthy entryPointName \<longrightarrow>
               packageEntryPoint p licenseBanner r w entryPointPackageName
                 = foldE (\<lambda>w' (inputPath, content).
                            writeFileFromInputPath p w' inputPath content) w produced
               \<and> (\<forall>w'. packageEntryPoint p licenseBanner r w entryPointPackageName = Inr w' \<longrightarrow>
                      trace w' = trace w
                        @ concat (map (\<lambda>(inputPath, content).
                            [Mkdir (path_dirname (outputPathOf p (cwd w) inputPath)),
                             WriteFile (outputPathOf p (cwd w) inputPath) content]) produced)
                    \<and> files w' = foldl (\<lambda>st (inputPath, content).
                          store_put st
                            (path_resolve (cwd w) (outputPathOf p (cwd w) inputPath)) content)
                        (files w) produced))"
proof -
  have skip: "\<not> truthy (substr entryPointPackageName (length root + 1)) \<Longrightarrow>
              packageEntryPoint p licenseBanner r w entryPointPackageName = Inr w"
    by (rule packageEntryPoint_skip[OF assms(1)])
  note writes = packageEntryPoint_writes[OF assms(1) _ assms(2,3), of licenseBanner w]
  show ?thesis
    unfolding Let_def
  proof (intro conjI impI allI)
    assume "\<not> truthy (substr entryPointPackageName (length root + 1))"
    then show "packageEntryPoint p licenseBanner r w entryPointPackageName = Inr w"
      by (rule skip)
  next
    assume t: "truthy (substr entryPointPackageName (length root + 1))"
    show "packageEntryPoint p licenseBanner r w entryPointPackageName
          = foldE (\<lambda>w' (inputPath, content). writeFileFromInputPath p w' inputPath content) w
              ((case metadata mf of
                  None \<Rightarrow> []
                | Some metadataFile \<Rightarrow>
                    if truthy metadataFile
                    then [(path_join [srcDir p,
                             substr entryPointPackageName (length root + 1) @ ''.metadata.json''],
                           ''{'' @ json_quote ''__symbolic'' @ '':'' @ json_quote ''module''
                           @ '','' @ json_quote ''version'' @ '':3''
                           @ '','' @ json_quote ''metadata'' @ '':{}''
                           @ '','' @ json_quote ''exports'' @ '':[{'' @ json_quote ''from'' @ '':''
                           @ json_quote (srcDirRelative p (cwd w)
                                (path_join [srcDir p,
                                   substr entryPointPackageName (length root + 1)
                                   @ ''.metadata.json''])
                                (strip_metadata_json metadataFile))
                           @ ''}]''
                           @ '','' @ json_quote ''flatModuleIndexRedirect'' @ '':true''
                           @ '','' @ json_quote ''importAs'' @ '':''
                           @ json_quote entryPointPackageName
                           @ ''}'' @ [CHR 0x0A])]
                    else [])
               @ [(path_join [srcDir p,
                      substr entryPointPackageName (length root + 1) @ ''.d.ts''],
                   licenseBanner @ [CHR 0x0A] @ ''export * from '' @ [CHR 0x27]
                   @ srcDirRelative p (cwd w)
                       (path_join [srcDir p,
                          substr entryPointPackageName (length root + 1) @ ''.d.ts''])
                       (strip_d_ts (typings mf))
                   @ [CHR 0x27] @ '';'' @ [CHR 0x0A])]
               @ (if Some entryPointPackageName \<notin> set (packagesWithExistingPackageJson r)
                  then [(path_join [srcDir p,
                           substr entryPointPackageName (length root + 1), ''package.json''],
                         JSON_stringify
                           [(''name'', entryPointPackageName),
                            (''main'', getBundleName entryPointPackageName ''bundles''),
                            (''fesm2015'', getBundleName entryPointPackageName ''fesm2015''),
                            (''esm2015'', srcDirRelative p (cwd w)
                               (path_join [srcDir p,
                                  substr entryPointPackageName (length root + 1),
                                  ''package.json''])
                               esm2015Index),
                            (''typings'', srcDirRelative p (cwd w)
                               (path_join [srcDir p,
                                  substr entryPointPackageName (length root + 1),
                                  ''package.json''])
                               (typings mf)),
                            (''module'', getBundleName entryPointPackageName ''fesm2015''),
                            (''es2015'', getBundleName entryPointPackageName ''fesm2015'')])]
                  else []))"
      (is "_ = foldE _ w ?produced")
      by (rule writes[OF t])
    fix w'
    assume "packageEntryPoint p licenseBanner r w entryPointPackageName = Inr w'"
    then have f: "foldE (\<lambda>w' (inputPath, content).
                     writeFileFromInputPath p w' inputPath content) w ?produced = Inr w'"
      unfolding writes[OF t] .
    show "trace w' = trace w
            @ concat (map (\<lambda>(inputPath, content).
                [Mkdir (path_dirname (outputPathOf p (cwd w) inputPath)),
                 WriteFile (outputPathOf p (cwd w) inputPath) content]) ?produced)"
      by (rule writes_world(2)[OF f])
    show "files w' = foldl (\<lambda>st (inputPath, content).
              store_put st (path_resolve (cwd w) (outputPathOf p (cwd w) inputPath)) content)
            (files w) ?produced"
      by (rule writes_world(3)[OF f])
  qed
qed

text \<open>
  C7 on the entry \<open>@a/c/http\<close> of the root \<open>@a/c\<close>, which has metadata and no manifest
  of its own: the three files arrive in \<open>dist\<close>. And on the root itself, which is skipped.
\<close>

theorem packageEntryPoint_produces_witness:
  "rootPackageName \<lparr>errorHasOccured = False, rootPackageName = Some ''@a/c'',
                     packagesWithExistingPackageJson = [Some ''@a/c''], now = empty_world\<rparr>
     = Some ''@a/c''
   \<and> map_of (modulesManifest pkg_params) ''@a/c/http'' = Some pkg_http
   \<and> esm2015_index pkg_http = Some ''bin/pkg/esm2015/http/http.js''
   \<and> truthy (substr ''@a/c/http'' (length ''@a/c'' + 1))
   \<and> metadata pkg_http = Some ''bin/pkg/http/http.metadata.json''
   \<and> truthy ''bin/pkg/http/http.metadata.json''
   \<and> packageEntryPoint pkg_params ''/* license */''
         \<lparr>errorHasOccured = False, rootPackageName = Some ''@a/c'',
          packagesWithExistingPackageJson = [Some ''@a/c''], now = empty_world\<rparr>
         empty_world ''@a/c/http''
       = Inr \<lparr>cwd = ''/w'',
              files =
                [(''/w/dist/http.metadata.json'',
                  ''{'' @ json_quote ''__symbolic'' @ '':'' @ json_quote ''module''
                  @ '','' @ json_quote ''version'' @ '':3''
                  @ '','' @ json_quote ''metadata'' @ '':{}''
                  @ '','' @ json_quote ''exports'' @ '':[{'' @ json_quote ''from'' @ '':''
                  @ json_quote ''./http/http'' @ ''}]''
                  @ '','' @ json_quote ''flatModuleIndexRedirect'' @ '':true''
                  @ '','' @ json_quote ''importAs'' @ '':'' @ json_quote ''@a/c/http''
                  @ ''}'' @ [CHR 0x0A]),
                 (''/w/dist/http.d.ts'',
                  ''/* license */'' @ [CHR 0x0A] @ ''export * from '' @ [CHR 0x27]
                  @ ''./http/http'' @ [CHR 0x27] @ '';'' @ [CHR 0x0A]),
                 (''/w/dist/http/package.json'',
                  JSON_stringify
                    [(''name'', ''@a/c/http''),
                     (''main'', ''../bundles/c-http.umd.js''),
                     (''fesm2015'', ''../fesm2015/http.js''),
                     (''esm2015'', ''../esm2015/http/http.js''),
                     (''typings'', ''./http.d.ts''),
                     (''module'', ''../fesm2015/http.js''),
                     (''es2015'', ''../fesm2015/http.js'')])],
              dirs = [''/w'', ''/w/dist'', ''/w/dist/http''],
              trace =
                [Mkdir ''dist'',
                 WriteFile ''dist/http.metadata.json''
                   (''{'' @ json_quote ''__symbolic'' @ '':'' @ json_quote ''module''
                    @ '','' @ json_quote ''version'' @ '':3''
                    @ '','' @ json_quote ''metadata'' @ '':{}''
                    @ '','' @ json_quote ''exports'' @ '':[{'' @ json_quote ''from'' @ '':''
                    @ json_quote ''./http/http'' @ ''}]''
                    @ '','' @ json_quote ''flatModuleIndexRedirect'' @ '':true''
                    @ '','' @ json_quote ''importAs'' @ '':'' @ json_quote ''@a/c/http''
                    @ ''}'' @ [CHR 0x0A]),
                 Mkdir ''dist'',
                 WriteFile ''dist/http.d.ts''
                   (''/* license */'' @ [CHR 0x0A] @ ''export * from '' @ [CHR 0x27]
                    @ ''./http/http'' @ [CHR 0x27] @ '';'' @ [CHR 0x0A]),
                 Mkdir ''dist/http'',
                 WriteFile ''dist/http/package.json''
                   (JSON_stringify
                      [(''name'', ''@a/c/http''),
                       (''main'', ''../bundles/c-http.umd.js''),
                       (''fesm2015'', ''../fesm2015/http.js''),
                       (''esm2015'', ''../esm2015/http/http.js''),
                       (''typings'', ''./http.d.ts''),
                       (''module'', ''../fesm2015/http.js''),
                       (''es2015'', ''../fesm2015/http.js'')])],
              console = []\<rparr>
   \<and> \<not> truthy (substr ''@a/c'' (length ''@a/c'' + 1))
   \<and> packageEntryPoint (pkg_params\<lparr>modulesManifest := [(''@a/c'', pkg_http)]\<rparr>) ''/* license */''
         \<lparr>errorHasOccured = False, rootPackageName = Some ''@a/c'',
          packagesWithExistingPackageJson = [Some ''@a/c''], now = empty_world\<rparr>
         empty_world ''@a/c'' = Inr empty_world"
proof -
  let ?p = pkg_params
  let ?r = "\<lparr>errorHasOccured = False, rootPackageName = Some ''@a/c'',
              packagesWithExistingPackageJson = [Some ''@a/c''], now = empty_world\<rparr>"
  let ?q = "pkg_params\<lparr>modulesManifest := [(''@a/c'', pkg_http)]\<rparr>"
  let ?mc = "''{'' @ json_quote ''__symbolic'' @ '':'' @ json_quote ''module''
                  @ '','' @ json_quote ''version'' @ '':3''
                  @ '','' @ json_quote ''metadata'' @ '':{}''
                  @ '','' @ json_quote ''exports'' @ '':[{'' @ json_quote ''from'' @ '':''
                  @ json_quote ''./http/http'' @ ''}]''
                  @ '','' @ json_quote ''flatModuleIndexRedirect'' @ '':true''
                  @ '','' @ json_quote ''importAs'' @ '':'' @ json_quote ''@a/c/http''
                  @ ''}'' @ [CHR 0x0A]"
  let ?tc = "''/* license */'' @ [CHR 0x0A] @ ''export * from '' @ [CHR 0x27]
                  @ ''./http/http'' @ [CHR 0x27] @ '';'' @ [CHR 0x0A]"
  let ?jc = "JSON_stringify
                    [(''name'', ''@a/c/http''),
                     (''main'', ''../bundles/c-http.umd.js''),
                     (''fesm2015'', ''../fesm2015/http.js''),
                     (''esm2015'', ''../esm2015/http/http.js''),
                     (''typings'', ''./http.d.ts''),
                     (''module'', ''../fesm2015/http.js''),
                     (''es2015'', ''../fesm2015/http.js'')]"
  let ?w1 = "\<lparr>cwd = ''/w'', files = [(''/w/dist/http.metadata.json'', ?mc)],
              dirs = [''/w'', ''/w/dist''],
              trace = [Mkdir ''dist'', WriteFile ''dist/http.metadata.json'' ?mc],
              console = []\<rparr>"
  let ?w2 = "\<lparr>cwd = ''/w'',
              files = [(''/w/dist/http.metadata.json'', ?mc), (''/w/dist/http.d.ts'', ?tc)],
              dirs = [''/w'', ''/w/dist''],
              trace = [Mkdir ''dist'', WriteFile ''dist/http.metadata.json'' ?mc,
                       Mkdir ''dist'', WriteFile ''dist/http.d.ts'' ?tc],
              console = []\<rparr>"
  let ?w3 = "\<lparr>cwd = ''/w'',
              files = [(''/w/dist/http.metadata.json'', ?mc), (''/w/dist/http.d.ts'', ?tc),
                       (''/w/dist/http/package.json'', ?jc)],
              dirs = [''/w'', ''/w/dist'', ''/w/dist/http''],
              trace = [Mkdir ''dist'', WriteFile ''dist/http.metadata.json'' ?mc,
                       Mkdir ''dist'', WriteFile ''dist/http.d.ts'' ?tc,
                       Mkdir ''dist/http'', WriteFile ''dist/http/package.json'' ?jc],
              console = []\<rparr>"
  have r: "rootPackageName ?r = Some ''@a/c''" by simp
  have m: "map_of (modulesManifest ?p) ''@a/c/http'' = Some pkg_http" by code_simp
  have e: "esm2015_index pkg_http = Some ''bin/pkg/esm2015/http/http.js''" by code_simp
  have t: "truthy (substr ''@a/c/http'' (length ''@a/c'' + 1))" by code_simp
  have md: "metadata pkg_http = Some ''bin/pkg/http/http.metadata.json''" by code_simp
  have tm: "truthy ''bin/pkg/http/http.metadata.json''" by code_simp
  have fresh: "Some ''@a/c/http'' \<notin> set (packagesWithExistingPackageJson ?r)" by simp
  have en: "substr ''@a/c/http'' (length ''@a/c'' + 1) = ''http''" by code_simp
  have i1: "path_join [srcDir ?p, ''http'' @ ''.metadata.json''] = ''pkg/http.metadata.json''"
    by code_simp
  have i2: "path_join [srcDir ?p, ''http'' @ ''.d.ts''] = ''pkg/http.d.ts''" by code_simp
  have i3: "path_join [srcDir ?p, ''http'', ''package.json''] = ''pkg/http/package.json''"
    by code_simp
  have c1: "srcDirRelative ?p (cwd empty_world) ''pkg/http.metadata.json''
              (strip_metadata_json ''bin/pkg/http/http.metadata.json'') = ''./http/http''"
    by code_simp
  have c2: "srcDirRelative ?p (cwd empty_world) ''pkg/http.d.ts'' (strip_d_ts (typings pkg_http))
            = ''./http/http''"
    by code_simp
  have c3: "srcDirRelative ?p (cwd empty_world) ''pkg/http/package.json''
              ''bin/pkg/esm2015/http/http.js'' = ''../esm2015/http/http.js''"
    by code_simp
  have c4: "srcDirRelative ?p (cwd empty_world) ''pkg/http/package.json'' (typings pkg_http)
            = ''./http.d.ts''"
    by code_simp
  have g1: "getBundleName ''@a/c/http'' ''bundles'' = ''../bundles/c-http.umd.js''" by code_simp
  have g2: "getBundleName ''@a/c/http'' ''fesm2015'' = ''../fesm2015/http.js''" by code_simp
  have s1: "writeFileFromInputPath ?p empty_world ''pkg/http.metadata.json'' ?mc = Inr ?w1"
    by code_simp
  have s2: "writeFileFromInputPath ?p ?w1 ''pkg/http.d.ts'' ?tc = Inr ?w2" by code_simp
  have s3: "writeFileFromInputPath ?p ?w2 ''pkg/http/package.json'' ?jc = Inr ?w3" by code_simp
  have run: "packageEntryPoint ?p ''/* license */'' ?r empty_world ''@a/c/http'' = Inr ?w3"
    using packageEntryPoint_produces[where licenseBanner = "''/* license */''" and w = empty_world,
            OF r m e,
            unfolded Let_def, THEN conjunct2, THEN mp, OF t, THEN conjunct1]
    by (simp only: en md option.case tm if_True i1 i2 i3 c1 c2 c3 c4 g1 g2 fresh
          not_False_eq_True foldE_append foldE.simps prod.case s1 s2 s3 bindE_def sum.case)
  have m': "map_of (modulesManifest ?q) ''@a/c'' = Some pkg_http" by code_simp
  have t': "\<not> truthy (substr ''@a/c'' (length ''@a/c'' + 1))" by code_simp
  have skip: "packageEntryPoint ?q ''/* license */'' ?r empty_world ''@a/c'' = Inr empty_world"
    using packageEntryPoint_produces[where licenseBanner = "''/* license */''" and w = empty_world,
            OF r m' e,
            unfolded Let_def, THEN conjunct1, THEN mp, OF t'] .
  from r m e t md tm run t' skip show ?thesis by blast
qed

subsection \<open>C8: unescaping double underscores\<close>

text \<open>
  C8 (the code at the failing input). For the input \<open>bin/pkg/http__testing.mjs\<close> the
  output name is \<open>http__testing.js\<close>, which contains the escape. \<open>copyFile\<close> copies
  the file to \<open>dist/fesm2015/http__testing.js\<close> and then moves
  \<open>join(dir, basename(file))\<close>, that is \<open>dist/fesm2015/http__testing.mjs\<close>, a file that
  does not exist: the run ends with an exception and nothing arrives at
  \<open>dist/fesm2015/http/testing.js\<close>. (For \<open>bin/pkg/http__testing.js\<close> the two base names
  coincide and the file is moved there, see \<open>copyFile_escaped_js\<close>.)
\<close>

theorem copyFile_escaped_mjs:
  "path_basename (mjs_to_js ''bin/pkg/http__testing.mjs'') = ''http__testing.js''
   \<and> readFileSync escaped_mjs_world ''bin/pkg/http__testing.mjs'' = Inr ''export {};''
   \<and> copyFile plain_library escaped_mjs_world ''bin/pkg/http__testing.mjs'' ''dist'' ''fesm2015''
       = Inl (ENOENT ''dist/fesm2015/http__testing.mjs'')"
  by code_simp

subsection \<open>C9: what amendment leaves alone\<close>

text \<open>
  C9. Where \<open>amendPackageJson\<close> finds the module entry, does not take the skip branch and
  returns, the string returned is the serialisation of the amended object; the properties
  of that object other than the six format fields are those of the input, in the same
  order and with the same values, \<open>name\<close> among them; its keys are those of the input
  and the six format fields; and the world is unchanged.
\<close>

theorem amendPackageJson_frame:
  assumes "map_of (modulesManifest p) (propertyKey (obj_get parsedPackage ''name'')) = Some moduleData"
    and "\<not> (guessedPaths moduleData \<and> \<not> isGeneratedPackageJson
             \<and> hasExplicitFormatProperties parsedPackage)"
    and "amendPackageJson p w packageJson parsedPackage isGeneratedPackageJson
         = Inr (amended, content, w')"
  shows "content = JSON_stringify amended
         \<and> otherFields amended = otherFields parsedPackage
         \<and> (\<forall>k. k \<notin> set knownFormatPackageJsonFields \<longrightarrow>
                obj_get amended k = obj_get parsedPackage k)
         \<and> obj_get amended ''name'' = obj_get parsedPackage ''name''
         \<and> set (map fst amended)
             = set knownFormatPackageJsonFields \<union> set (map fst parsedPackage)
         \<and> w' = w"
proof -
  have "\<exists>n e. amended = setFormatProperties p (cwd w) packageJson n moduleData e parsedPackage
           \<and> content = JSON_stringify amended \<and> w' = w"
  proof (cases "obj_get parsedPackage ''name''")
    case None
    with assms show ?thesis by (auto simp add: amendPackageJson_def split: if_splits)
  next
    case (Some n)
    with assms show ?thesis
      by (cases "esm2015_index moduleData")
         (auto simp add: amendPackageJson_def Let_def split: if_splits)
  qed
  then obtain n e where
    m': "amended = setFormatProperties p (cwd w) packageJson n moduleData e parsedPackage"
    and c: "content = JSON_stringify amended" and w: "w' = w"
    by blast
  have n: "obj_get amended ''name'' = obj_get parsedPackage ''name''"
    unfolding m' by (rule obj_get_setFormatProperties) (simp add: knownFormatPackageJsonFields_def)
  have o: "otherFields amended = otherFields parsedPackage"
    unfolding m' by (rule otherFields_setFormatProperties)
  have g: "\<forall>k. k \<notin> set knownFormatPackageJsonFields \<longrightarrow>
             obj_get amended k = obj_get parsedPackage k"
    unfolding m' using obj_get_setFormatProperties by blast
  have k: "set (map fst amended)
           = set knownFormatPackageJsonFields \<union> set (map fst parsedPackage)"
    unfolding m' by (rule keys_setFormatProperties)
  from c o g n k w show ?thesis by blast
qed

text \<open>
  C9 on a manifest of \<open>@a/c/http\<close> with a \<open>version\<close> field.
\<close>

theorem amendPackageJson_frame_witness:
  "map_of (modulesManifest pkg_params)
     (propertyKey (obj_get [(''name'', ''@a/c/http''), (''version'', ''8.0.0'')] ''name''))
     = Some pkg_http
   \<and> \<not> guessedPaths pkg_http
   \<and> amendPackageJson pkg_params empty_world ''pkg/http/package.json''
        [(''name'', ''@a/c/http''), (''version'', ''8.0.0'')] False
       = Inr ([(''name'', ''@a/c/http''), (''version'', ''8.0.0''),
               (''main'', ''../bundles/c-http.umd.js''),
               (''fesm2015'', ''../fesm2015/http.js''),
               (''esm2015'', ''../esm2015/http/http.js''),
               (''typings'', ''./http.d.ts''),
               (''module'', ''../fesm2015/http.js''),
               (''es2015'', ''../fesm2015/http.js'')],
              JSON_stringify
                [(''name'', ''@a/c/http''), (''version'', ''8.0.0''),
                 (''main'', ''../bundles/c-http.umd.js''),
                 (''fesm2015'', ''../fesm2015/http.js''),
                 (''esm2015'', ''../esm2015/http/http.js''),
                 (''typings'', ''./http.d.ts''),
                 (''module'', ''../fesm2015/http.js''),
                 (''es2015'', ''../fesm2015/http.js'')],
              empty_world)
   \<and> otherFields [(''name'', ''@a/c/http''), (''version'', ''8.0.0''),
               (''main'', ''../bundles/c-http.umd.js''),
               (''fesm2015'', ''../fesm2015/http.js''),
               (''esm2015'', ''../esm2015/http/http.js''),
               (''typings'', ''./http.d.ts''),
               (''module'', ''../fesm2015/http.js''),
               (''es2015'', ''../fesm2015/http.js'')]
       = otherFields [(''name'', ''@a/c/http''), (''version'', ''8.0.0'')]"
proof -
  have m: "map_of (modulesManifest pkg_params)
     (propertyKey (obj_get [(''name'', ''@a/c/http''), (''version'', ''8.0.0'')] ''name''))
     = Some pkg_http"
    by code_simp
  have g: "\<not> guessedPaths pkg_http" by code_simp
  then have s: "\<not> (guessedPaths pkg_http \<and> \<not> False
       \<and> hasExplicitFormatProperties [(''name'', ''@a/c/http''), (''version'', ''8.0.0'')])"
    by simp
  have a: "amendPackageJson pkg_params empty_world ''pkg/http/package.json''
        [(''name'', ''@a/c/http''), (''version'', ''8.0.0'')] False
       = Inr ([(''name'', ''@a/c/http''), (''version'', ''8.0.0''),
               (''main'', ''../bundles/c-http.umd.js''),
               (''fesm2015'', ''../fesm2015/http.js''),
               (''esm2015'', ''../esm2015/http/http.js''),
               (''typings'', ''./http.d.ts''),
               (''module'', ''../fesm2015/http.js''),
               (''es2015'', ''../fesm2015/http.js'')],
              JSON_stringify
                [(''name'', ''@a/c/http''), (''version'', ''8.0.0''),
                 (''main'', ''../bundles/c-http.umd.js''),
                 (''fesm2015'', ''../fesm2015/http.js''),
                 (''esm2015'', ''../esm2015/http/http.js''),
                 (''typings'', ''./http.d.ts''),
                 (''module'', ''../fesm2015/http.js''),
                 (''es2015'', ''../fesm2015/http.js'')],
              empty_world)"
    by code_simp
  show ?thesis
    using amendPackageJson_frame[OF m s a] m g a by blast
qed

subsection \<open>C10: the root package name\<close>

text \<open>
  C10 (as stated, refuted). The source list holds a manifest with the empty name and then
  one named \<open>abc\<close>. After the loop the root package name is \<open>abc\<close>, which is not a
  name of minimum length among the two: the empty string is what \<open>rootPackageName\<close>
  holds before any manifest is met, so an empty name is replaced by the next one.
\<close>

theorem rootPackageName_empty_name_counterexample:
  "map_sum id packagesWithExistingPackageJson
     (foldE (packageSrc pkg_params plain_library)
        \<lparr>errorHasOccured = False, rootPackageName = Some [],
         packagesWithExistingPackageJson = [], now = manifests_world\<rparr>
        [''pkg/package.json'', ''pkg/abc/package.json''])
     = Inr [Some [], Some ''abc'']
   \<and> map_sum id rootPackageName
     (foldE (packageSrc pkg_params plain_library)
        \<lparr>errorHasOccured = False, rootPackageName = Some [],
         packagesWithExistingPackageJson = [], now = manifests_world\<rparr>
        [''pkg/package.json'', ''pkg/abc/package.json''])
     = Inr (Some ''abc'')
   \<and> length ([] :: string) < length ''abc''"
proof -
  let ?p = pkg_params
  let ?s1 = "''pkg/package.json''"
  let ?s2 = "''pkg/abc/package.json''"
  let ?m1 = "[(''name'', [])] :: manifest"
  let ?m2 = "[(''name'', ''abc'')] :: manifest"
  let ?r0 = "\<lparr>errorHasOccured = False, rootPackageName = Some [],
               packagesWithExistingPackageJson = [], now = manifests_world\<rparr>"
  let ?w1 = "missingModuleWarning (now ?r0) (Some [])"
  let ?v1 = "\<lparr>cwd = ''/w'',
              files = files manifests_world @ [(''/w/dist/package.json'', JSON_stringify ?m1)],
              dirs = dirs manifests_world @ [''/w/dist''],
              trace = [Mkdir ''dist'', WriteFile ''dist/package.json'' (JSON_stringify ?m1)],
              console = console ?w1\<rparr>"
  let ?r1 = "?r0\<lparr>rootPackageName := Some [],
                 packagesWithExistingPackageJson :=
                   packagesWithExistingPackageJson ?r0 @ [obj_get ?m1 ''name''],
                 now := ?v1\<rparr>"
  let ?w2 = "missingModuleWarning (now ?r1) (Some ''abc'')"
  let ?v2 = "\<lparr>cwd = ''/w'',
              files = files ?v1 @ [(''/w/dist/abc/package.json'', JSON_stringify ?m2)],
              dirs = dirs ?v1 @ [''/w/dist/abc''],
              trace = trace ?v1 @ [Mkdir ''dist/abc'',
                                   WriteFile ''dist/abc/package.json'' (JSON_stringify ?m2)],
              console = console ?w2\<rparr>"
  let ?r2 = "?r1\<lparr>rootPackageName := Some ''abc'',
                 packagesWithExistingPackageJson :=
                   packagesWithExistingPackageJson ?r1 @ [obj_get ?m2 ''name''],
                 now := ?v2\<rparr>"
  have f1: "\<not> fromOutputTree ?p ?s1" by code_simp
  have b1: "path_basename ?s1 = ''package.json''" by code_simp
  have d1: "readFileSync (now ?r0) ?s1 = Inr (JSON_stringify ?m1)" by code_simp
  have j1: "JSON_parse plain_library (JSON_stringify ?m1) = Some ?m1" by code_simp
  have a1: "amendPackageJson ?p (now ?r0) ?s1 ?m1 False = Inr (?m1, JSON_stringify ?m1, ?w1)"
    by code_simp
  have n1: "nextRootPackageName (rootPackageName ?r0) (obj_get ?m1 ''name'') = Inr (Some [])"
    by code_simp
  have o1: "writeFileFromInputPath ?p ?w1 ?s1 (JSON_stringify ?m1) = Inr ?v1" by code_simp
  have s1: "packageSrc ?p plain_library ?r0 ?s1 = Inr ?r1"
    by (rule packageSrc_manifest_unflagged[OF f1 b1 d1 j1 a1 n1 o1])
  have f2: "\<not> fromOutputTree ?p ?s2" by code_simp
  have b2: "path_basename ?s2 = ''package.json''" by code_simp
  have d2: "readFileSync (now ?r1) ?s2 = Inr (JSON_stringify ?m2)" by code_simp
  have j2: "JSON_parse plain_library (JSON_stringify ?m2) = Some ?m2" by code_simp
  have a2: "amendPackageJson ?p (now ?r1) ?s2 ?m2 False = Inr (?m2, JSON_stringify ?m2, ?w2)"
    by code_simp
  have n2: "nextRootPackageName (rootPackageName ?r1) (obj_get ?m2 ''name'') = Inr (Some ''abc'')"
    by code_simp
  have o2: "writeFileFromInputPath ?p ?w2 ?s2 (JSON_stringify ?m2) = Inr ?v2" by code_simp
  have s2: "packageSrc ?p plain_library ?r1 ?s2 = Inr ?r2"
    by (rule packageSrc_manifest_unflagged[OF f2 b2 d2 j2 a2 n2 o2])
  have loop: "foldE (packageSrc ?p plain_library) ?r0 [?s1, ?s2] = Inr ?r2"
    by (simp only: foldE.simps s1 s2 bindE_def sum.case)
  have names: "packagesWithExistingPackageJson ?r2 = [Some [], Some ''abc'']"
    by (simp add: obj_get_def)
  have root: "rootPackageName ?r2 = Some ''abc''" by simp
  show ?thesis
    unfolding loop using names root by simp
qed

text \<open>
  C10, amended. If the manifests met in the source list all declare non-empty names, and
  there is at least one, then after the loop \<open>rootPackageName\<close> is the first of these
  names, in the order of the source list, whose length is the minimum: every name before it
  is strictly longer and no name after it is shorter.
\<close>

theorem rootPackageName_first_shortest:
  assumes "foldE (packageSrc p lib)
             \<lparr>errorHasOccured = False, rootPackageName = Some [],
              packagesWithExistingPackageJson = [], now = w\<rparr> srcs = Inr r"
    and "packagesWithExistingPackageJson r = map Some names"
    and "names \<noteq> []"
    and "\<forall>n \<in> set names. n \<noteq> []"
  shows "\<exists>x. rootPackageName r = Some x \<and> firstOfMinimumLength names x"
proof -
  from packageSrc_loop(4)[OF assms(1)] assms(2)
  have f: "foldE nextRootPackageName (Some []) (map Some names) = Inr (rootPackageName r)"
    by simp
  from assms(3) obtain n ns where names: "names = n # ns" by (cases names) auto
  with assms(4) have n: "n \<noteq> []" and ns: "\<forall>m \<in> set ns. m \<noteq> []" by simp_all
  have "foldE nextRootPackageName (Some []) (map Some names)
        = foldE nextRootPackageName (Some n) (map Some ns)"
    unfolding names by (simp add: nextRootPackageName_def truthy_def bindE_def)
  with f nextRootPackageName_loop[OF n ns] show ?thesis
    unfolding names by auto
qed

text \<open>
  The amended C10 on the manifests \<open>abcd\<close> and \<open>abc\<close>, in this order.
\<close>

theorem rootPackageName_first_shortest_witness:
  "foldE (packageSrc pkg_params plain_library)
        \<lparr>errorHasOccured = False, rootPackageName = Some [],
         packagesWithExistingPackageJson = [], now = manifests_world\<rparr>
        [''pkg/abcd/package.json'', ''pkg/abc/package.json'']
   = Inr \<lparr>errorHasOccured = False, rootPackageName = Some ''abc'',
           packagesWithExistingPackageJson = [Some ''abcd'', Some ''abc''],
           now =
             \<lparr>cwd = ''/w'',
              files =
                [(''/w/pkg/package.json'', JSON_stringify [(''name'', [])]),
                 (''/w/pkg/abc/package.json'', JSON_stringify [(''name'', ''abc'')]),
                 (''/w/pkg/abcd/package.json'', JSON_stringify [(''name'', ''abcd'')]),
                 (''/w/dist/abcd/package.json'', JSON_stringify [(''name'', ''abcd'')]),
                 (''/w/dist/abc/package.json'', JSON_stringify [(''name'', ''abc'')])],
              dirs = [''/w'', ''/w/pkg'', ''/w/pkg/abc'', ''/w/pkg/abcd'', ''/w/dist'',
                      ''/w/dist/abcd'', ''/w/dist/abc''],
              trace =
                [Mkdir ''dist/abcd'',
                 WriteFile ''dist/abcd/package.json'' (JSON_stringify [(''name'', ''abcd'')]),
                 Mkdir ''dist/abc'',
                 WriteFile ''dist/abc/package.json'' (JSON_stringify [(''name'', ''abc'')])],
              console =
                [''WARNING: no module metadata for package abcd'',
                 ''   Not updating the package.json file to point to it'',
                 ''   The ng_module for this package is possibly missing the module_name attribute '',
                 ''WARNING: no module metadata for package abc'',
                 ''   Not updating the package.json file to point to it'',
                 ''   The ng_module for this package is possibly missing the module_name attribute '']\<rparr>\<rparr>
   \<and> [Some ''abcd'', Some ''abc''] = map Some [''abcd'', ''abc'']
   \<and> [''abcd'', ''abc''] \<noteq> []
   \<and> ''abcd'' \<noteq> [] \<and> ''abc'' \<noteq> []
   \<and> firstOfMinimumLength [''abcd'', ''abc''] ''abc''"
proof -
  let ?p = pkg_params
  let ?s1 = "''pkg/abcd/package.json''"
  let ?s2 = "''pkg/abc/package.json''"
  let ?m1 = "[(''name'', ''abcd'')] :: manifest"
  let ?m2 = "[(''name'', ''abc'')] :: manifest"
  let ?r0 = "\<lparr>errorHasOccured = False, rootPackageName = Some [],
               packagesWithExistingPackageJson = [], now = manifests_world\<rparr>"
  let ?w1 = "missingModuleWarning (now ?r0) (Some ''abcd'')"
  let ?v1 = "\<lparr>cwd = ''/w'',
              files = files manifests_world @ [(''/w/dist/abcd/package.json'', JSON_stringify ?m1)],
              dirs = dirs manifests_world @ [''/w/dist'', ''/w/dist/abcd''],
              trace = [Mkdir ''dist/abcd'', WriteFile ''dist/abcd/package.json'' (JSON_stringify ?m1)],
              console = console ?w1\<rparr>"
  let ?r1 = "?r0\<lparr>rootPackageName := Some ''abcd'',
                 packagesWithExistingPackageJson :=
                   packagesWithExistingPackageJson ?r0 @ [obj_get ?m1 ''name''],
                 now := ?v1\<rparr>"
  let ?w2 = "missingModuleWarning (now ?r1) (Some ''abc'')"
  let ?v2 = "\<lparr>cwd = ''/w'',
              files = files ?v1 @ [(''/w/dist/abc/package.json'', JSON_stringify ?m2)],
              dirs = dirs ?v1 @ [''/w/dist/abc''],
              trace = trace ?v1 @ [Mkdir ''dist/abc'',
                                   WriteFile ''dist/abc/package.json'' (JSON_stringify ?m2)],
              console = console ?w2\<rparr>"
  let ?r2 = "?r1\<lparr>rootPackageName := Some ''abc'',
                 packagesWithExistingPackageJson :=
                   packagesWithExistingPackageJson ?r1 @ [obj_get ?m2 ''name''],
                 now := ?v2\<rparr>"
  have f1: "\<not> fromOutputTree ?p ?s1" by code_simp
  have b1: "path_basename ?s1 = ''package.json''" by code_simp
  have d1: "readFileSync (now ?r0) ?s1 = Inr (JSON_stringify ?m1)" by code_simp
  have j1: "JSON_parse plain_library (JSON_stringify ?m1) = Some ?m1" by code_simp
  have a1: "amendPackageJson ?p (now ?r0) ?s1 ?m1 False = Inr (?m1, JSON_stringify ?m1, ?w1)"
    by code_simp
  have n1: "nextRootPackageName (rootPackageName ?r0) (obj_get ?m1 ''name'') = Inr (Some ''abcd'')"
    by code_simp
  have o1: "writeFileFromInputPath ?p ?w1 ?s1 (JSON_stringify ?m1) = Inr ?v1" by code_simp
  have s1: "packageSrc ?p plain_library ?r0 ?s1 = Inr ?r1"
    by (rule packageSrc_manifest_unflagged[OF f1 b1 d1 j1 a1 n1 o1])
  have f2: "\<not> fromOutputTree ?p ?s2" by code_simp
  have b2: "path_basename ?s2 = ''package.json''" by code_simp
  have d2: "readFileSync (now ?r1) ?s2 = Inr (JSON_stringify ?m2)" by code_simp
  have j2: "JSON_parse plain_library (JSON_stringify ?m2) = Some ?m2" by code_simp
  have a2: "amendPackageJson ?p (now ?r1) ?s2 ?m2 False = Inr (?m2, JSON_stringify ?m2, ?w2)"
    by code_simp
  have n2: "nextRootPackageName (rootPackageName ?r1) (obj_get ?m2 ''name'') = Inr (Some ''abc'')"
    by code_simp
  have o2: "writeFileFromInputPath ?p ?w2 ?s2 (JSON_stringify ?m2) = Inr ?v2" by code_simp
  have s2: "packageSrc ?p plain_library ?r1 ?s2 = Inr ?r2"
    by (rule packageSrc_manifest_unflagged[OF f2 b2 d2 j2 a2 n2 o2])
  let ?final = "\<lparr>errorHasOccured = False, rootPackageName = Some ''abc'',
           packagesWithExistingPackageJson = [Some ''abcd'', Some ''abc''],
           now =
             \<lparr>cwd = ''/w'',
              files =
                [(''/w/pkg/package.json'', JSON_stringify [(''name'', [])]),
                 (''/w/pkg/abc/package.json'', JSON_stringify [(''name'', ''abc'')]),
                 (''/w/pkg/abcd/package.json'', JSON_stringify [(''name'', ''abcd'')]),
                 (''/w/dist/abcd/package.json'', JSON_stringify [(''name'', ''abcd'')]),
                 (''/w/dist/abc/package.json'', JSON_stringify [(''name'', ''abc'')])],
              dirs = [''/w'', ''/w/pkg'', ''/w/pkg/abc'', ''/w/pkg/abcd'', ''/w/dist'',
                      ''/w/dist/abcd'', ''/w/dist/abc''],
              trace =
                [Mkdir ''dist/abcd'',
                 WriteFile ''dist/abcd/package.json'' (JSON_stringify [(''name'', ''abcd'')]),
                 Mkdir ''dist/abc'',
                 WriteFile ''dist/abc/package.json'' (JSON_stringify [(''name'', ''abc'')])],
              console =
                [''WARNING: no module metadata for package abcd'',
                 ''   Not updating the package.json file to point to it'',
                 ''   The ng_module for this package is possibly missing the module_name attribute '',
                 ''WARNING: no module metadata for package abc'',
                 ''   Not updating the package.json file to point to it'',
                 ''   The ng_module for this package is possibly missing the module_name attribute '']\<rparr>\<rparr>"
  have fin: "?r2 = ?final" by code_simp
  have loop: "foldE (packageSrc ?p plain_library) ?r0 [?s1, ?s2] = Inr ?final"
    unfolding fin[symmetric] by (simp only: foldE.simps s1 s2 bindE_def sum.case)
  have names: "packagesWithExistingPackageJson ?final = map Some [''abcd'', ''abc'']" by simp
  have ne: "[''abcd'', ''abc''] \<noteq> []" by simp
  have nonempty: "\<forall>n \<in> set [''abcd'', ''abc'']. n \<noteq> []" by simp
  from rootPackageName_first_shortest[OF loop names ne nonempty]
  have "firstOfMinimumLength [''abcd'', ''abc''] ''abc''" by simp
  with loop show ?thesis by simp
qed

end
